theory Spec2Isabelle
  imports Main "HOL-Library.AList" "HOL-Library.Product_Lexorder"
begin

text \<open>
  A model of the query service of \<^verbatim>\<open>src/routes/api.js\<close>: the router with its routes in
  registration order, the handlers as functions from a request and the state of the storage to
  a response and the new state, the statement texts they assemble with their parameter
  arrays, and the meaning of the statements on tables given as lists of rows. The handlers
  for the user search, the user profile, the room history of a user, the room details, the
  shared rooms, the room search and the recording of a profile view are modelled in full; of
  the other handlers that assemble a statement from optional filters, the assembly is. The
  routing of the web framework and the behaviour of the database server and its driver are
  not part of the file; they are modelled as far as the handlers rely on them.
\<close>

section \<open>JavaScript values\<close>

text \<open>
  The values the handlers of \<^verbatim>\<open>src/routes/api.js\<close> see: what the driver puts into a result
  row (an integer column is a number, a bigint such as a \<^verbatim>\<open>COUNT\<close> is a decimal string, a
  timestamp is a \<^verbatim>\<open>Date\<close>, SQL NULL is \<^verbatim>\<open>null\<close>), what a handler reads from a
  missing property (\<^verbatim>\<open>undefined\<close>), and what it passes to \<^verbatim>\<open>res.json\<close>.
\<close>

datatype jsval =
    JUndef
  | JNull
  | JBool bool
  | JNum int
  | JNaN
  | JStr string
  | JDate int
  | JArr "jsval list"
  | JObj "(string \<times> jsval) list"

text \<open>ToBoolean: \<^verbatim>\<open>undefined\<close>, \<^verbatim>\<open>null\<close>, \<^verbatim>\<open>false\<close>, \<^verbatim>\<open>0\<close>, \<^verbatim>\<open>NaN\<close> and \<^verbatim>\<open>''\<close> are falsy.\<close>

fun truthy :: "jsval \<Rightarrow> bool" where
  "truthy JUndef = False"
| "truthy JNull = False"
| "truthy (JBool b) = b"
| "truthy (JNum n) = (n \<noteq> 0)"
| "truthy JNaN = False"
| "truthy (JStr s) = (s \<noteq> [])"
| "truthy (JDate t) = True"
| "truthy (JArr xs) = True"
| "truthy (JObj kvs) = True"

text \<open>\<^verbatim>\<open>a || b\<close> and \<^verbatim>\<open>a && b\<close> return one of their operands.\<close>

definition js_or :: "jsval \<Rightarrow> jsval \<Rightarrow> jsval" where
  "js_or a b = (if truthy a then a else b)"

definition js_and :: "jsval \<Rightarrow> jsval \<Rightarrow> jsval" where
  "js_and a b = (if truthy a then b else a)"

text \<open>Property read \<^verbatim>\<open>o.k\<close>: a missing property is \<^verbatim>\<open>undefined\<close>.\<close>

definition js_get :: "(string \<times> jsval) list \<Rightarrow> string \<Rightarrow> jsval" where
  "js_get obj k = (case map_of obj k of None \<Rightarrow> JUndef | Some v \<Rightarrow> v)"

section \<open>Characters and decimal numerals\<close>

definition lower_char :: "char \<Rightarrow> char" where
  "lower_char c =
     (case map_of (zip ''ABCDEFGHIJKLMNOPQRSTUVWXYZ'' ''abcdefghijklmnopqrstuvwxyz'') c of
        None \<Rightarrow> c
      | Some d \<Rightarrow> d)"

text \<open>SQL \<^verbatim>\<open>LOWER\<close> and case-insensitive matching, on the ASCII letters.\<close>

definition lower :: "string \<Rightarrow> string" where
  "lower s = map lower_char s"


text \<open>Decimal text of a number, as a template literal \<^verbatim>\<open>${n}\<close> and the driver produce it.\<close>

definition digit_char :: "nat \<Rightarrow> char" where
  "digit_char d = ''0123456789'' ! d"

fun show_nat :: "nat \<Rightarrow> string" where
  "show_nat n =
     (if n < 10 then [digit_char n]
      else show_nat (n div 10) @ [digit_char (n mod 10)])"

declare show_nat.simps [simp del]

definition show_int :: "int \<Rightarrow> string" where
  "show_int i = (if i < 0 then CHR ''-'' # show_nat (nat (- i)) else show_nat (nat i))"

definition hex_val :: "char \<Rightarrow> nat option" where
  "hex_val c =
     map_of (zip ''0123456789abcdefABCDEF''
       [0, 1, 2, 3, 4, 5, 6, 7, 8, 9, 10, 11, 12, 13, 14, 15, 10, 11, 12, 13, 14, 15]) c"

definition radix_val :: "nat \<Rightarrow> char \<Rightarrow> nat option" where
  "radix_val r c =
     (case hex_val c of
        None \<Rightarrow> None
      | Some d \<Rightarrow> if d < r then Some d else None)"

text \<open>The longest prefix of digits of the radix, as a number; \<open>acc\<close> tells whether a digit was read.\<close>

fun read_digits :: "nat \<Rightarrow> nat option \<Rightarrow> string \<Rightarrow> nat option" where
  "read_digits r acc [] = acc"
| "read_digits r acc (c # cs) =
     (case radix_val r c of
        None \<Rightarrow> acc
      | Some d \<Rightarrow>
          read_digits r (Some (r * (case acc of None \<Rightarrow> 0 | Some n \<Rightarrow> n) + d)) cs)"

definition is_space :: "char \<Rightarrow> bool" where
  "is_space c = (c \<in> set [CHR '' '', CHR 0x09, CHR 0x0A, CHR 0x0B, CHR 0x0C, CHR 0x0D])"

text \<open>
  \<^verbatim>\<open>parseInt(s)\<close> without a radix: leading white space, an optional sign, an optional
  \<^verbatim>\<open>0x\<close>, then the longest prefix of digits; \<open>None\<close> is \<^verbatim>\<open>NaN\<close>.
\<close>

definition parse_unsigned :: "string \<Rightarrow> nat option" where
  "parse_unsigned s =
     (case s of
        a # b # cs \<Rightarrow>
          (if a = CHR ''0'' \<and> (b = CHR ''x'' \<or> b = CHR ''X'') then read_digits 16 None cs
           else read_digits 10 None s)
      | _ \<Rightarrow> read_digits 10 None s)"

definition parseInt_string :: "string \<Rightarrow> int option" where
  "parseInt_string s =
     (case dropWhile is_space s of
        [] \<Rightarrow> None
      | c # cs \<Rightarrow>
          (if c = CHR ''-'' then map_option (\<lambda>n. - int n) (parse_unsigned cs)
           else if c = CHR ''+'' then map_option int (parse_unsigned cs)
           else map_option int (parse_unsigned (c # cs))))"

text \<open>
  ToString, for template literals. An array joins its elements with commas, \<^verbatim>\<open>null\<close> and
  \<^verbatim>\<open>undefined\<close> elements as the empty text. No Date reaches a template literal in this
  file; the text given to it here is a stand-in.
\<close>

fun js_to_string :: "jsval \<Rightarrow> string" and js_join :: "jsval list \<Rightarrow> string" where
  "js_to_string JUndef = ''undefined''"
| "js_to_string JNull = ''null''"
| "js_to_string (JBool b) = (if b then ''true'' else ''false'')"
| "js_to_string (JNum n) = show_int n"
| "js_to_string JNaN = ''NaN''"
| "js_to_string (JStr s) = s"
| "js_to_string (JDate t) = ''Date''"
| "js_to_string (JArr xs) = js_join xs"
| "js_to_string (JObj kvs) = ''[object Object]''"
| "js_join [] = []"
| "js_join (x # xs) =
     (if x = JNull \<or> x = JUndef then [] else js_to_string x)
     @ (if xs = [] then [] else CHR '','' # js_join xs)"

text \<open>\<^verbatim>\<open>parseInt(v)\<close>: the text of the value is parsed. A number is its own integer part.\<close>

definition parseInt :: "jsval \<Rightarrow> jsval" where
  "parseInt v =
     (case v of
        JNum n \<Rightarrow> JNum n
      | _ \<Rightarrow> (case parseInt_string (js_to_string v) of None \<Rightarrow> JNaN | Some n \<Rightarrow> JNum n))"

text \<open>\<^verbatim>\<open>v.length\<close> of a string or an array; any other value has none.\<close>

definition js_length :: "jsval \<Rightarrow> jsval" where
  "js_length v =
     (case v of
        JStr s \<Rightarrow> JNum (int (length s))
      | JArr xs \<Rightarrow> JNum (int (length xs))
      | _ \<Rightarrow> JUndef)"

text \<open>
  \<^verbatim>\<open>a < b\<close>, \<^verbatim>\<open>a > b\<close> and \<^verbatim>\<open>a + b\<close> on numbers; a comparison with \<^verbatim>\<open>NaN\<close> or
  \<^verbatim>\<open>undefined\<close> is false and a sum with \<^verbatim>\<open>NaN\<close> is \<^verbatim>\<open>NaN\<close>. The handlers apply them
  to results of \<^verbatim>\<open>parseInt\<close> and to lengths only.
\<close>

definition js_lt :: "jsval \<Rightarrow> jsval \<Rightarrow> bool" where
  "js_lt a b = (case (a, b) of (JNum x, JNum y) \<Rightarrow> x < y | _ \<Rightarrow> False)"

definition js_gt :: "jsval \<Rightarrow> jsval \<Rightarrow> bool" where
  "js_gt a b = js_lt b a"

definition js_add :: "jsval \<Rightarrow> jsval \<Rightarrow> jsval" where
  "js_add a b = (case (a, b) of (JNum x, JNum y) \<Rightarrow> JNum (x + y) | _ \<Rightarrow> JNaN)"

text \<open>An object literal's \<^verbatim>\<open>k: v\<close> after a spread: overwrite the property or add it.\<close>

definition js_set :: "string \<Rightarrow> jsval \<Rightarrow> (string \<times> jsval) list \<Rightarrow> (string \<times> jsval) list" where
  "js_set k v obj = AList.update k v obj"

section \<open>The router\<close>

text \<open>
  \<^verbatim>\<open>router.get(path, handler)\<close> and \<^verbatim>\<open>router.post(path, handler)\<close> append a route to the
  router's stack. A request walks the stack in registration order and runs the first route
  whose verb and path pattern match; no handler of the file calls \<^verbatim>\<open>next\<close>, so no later
  route ever sees the request.
\<close>

datatype verb = GET | POST

datatype endpoint =
    UsersSearch
  | UserProfile
  | UserHistory
  | UserRooms
  | UserRoomSessions
  | RoomDetails
  | RoomParticipants
  | RoomTimeline
  | RoomSnapshots
  | SharedRooms
  | MostStalked
  | MostActive
  | TrendingRooms
  | ActiveRooms
  | SearchRooms
  | GlobalStats
  | LanguageStats
  | SkillStats
  | RecordView
  | RoomAnalytics
  | Health

text \<open>The routes of \<^verbatim>\<open>src/routes/api.js\<close>, in the order of their registration (lines 32 to 1041).\<close>

definition routes :: "(verb \<times> string \<times> endpoint) list" where
  "routes =
    [(GET, ''/users/search'', UsersSearch),
     (GET, ''/users/:userId'', UserProfile),
     (GET, ''/users/:userId/history'', UserHistory),
     (GET, ''/users/:userId/rooms'', UserRooms),
     (GET, ''/users/:userId/rooms/:roomId/sessions'', UserRoomSessions),
     (GET, ''/rooms/:roomId'', RoomDetails),
     (GET, ''/rooms/:roomId/participants'', RoomParticipants),
     (GET, ''/rooms/:roomId/timeline'', RoomTimeline),
     (GET, ''/rooms/:roomId/snapshots'', RoomSnapshots),
     (GET, ''/users/:user1Id/shared/:user2Id'', SharedRooms),
     (GET, ''/leaderboard/most-stalked'', MostStalked),
     (GET, ''/leaderboard/most-active'', MostActive),
     (GET, ''/rooms/trending'', TrendingRooms),
     (GET, ''/rooms/active'', ActiveRooms),
     (GET, ''/rooms/search'', SearchRooms),
     (GET, ''/stats'', GlobalStats),
     (GET, ''/stats/languages'', LanguageStats),
     (GET, ''/stats/skills'', SkillStats),
     (POST, ''/users/:userId/view'', RecordView),
     (GET, ''/rooms/:roomId/analytics'', RoomAnalytics),
     (GET, ''/health'', Health)]"

fun split_on :: "char \<Rightarrow> string \<Rightarrow> string list" where
  "split_on c [] = [[]]"
| "split_on c (x # xs) =
     (if x = c then [] # split_on c xs
      else (case split_on c xs of
              [] \<Rightarrow> [[x]]
            | s # ss \<Rightarrow> (x # s) # ss))"

text \<open>
  The segments of a path: the text between the slashes after the leading one. Routing is not
  strict, so one trailing slash is ignored.
\<close>

definition segments :: "string \<Rightarrow> string list" where
  "segments p =
     (let ss = tl (split_on CHR ''/'' p)
      in if ss \<noteq> [] \<and> last ss = [] then butlast ss else ss)"

text \<open>
  A pattern segment \<^verbatim>\<open>:name\<close> matches any non-empty segment and binds it; any other pattern
  segment matches itself, letter case ignored (the router's default). Percent-decoding of the
  bound value is not modelled.
\<close>

fun match_segs :: "string list \<Rightarrow> string list \<Rightarrow> (string \<times> string) list option" where
  "match_segs [] [] = Some []"
| "match_segs (p # ps) (x # xs) =
     (case p of
        c # name \<Rightarrow>
          (if c = CHR '':'' then
             (if x = [] then None
              else map_option (\<lambda>bs. (name, x) # bs) (match_segs ps xs))
           else if lower p = lower x then match_segs ps xs else None)
      | [] \<Rightarrow> (if x = [] then match_segs ps xs else None))"
| "match_segs [] (x # xs) = None"
| "match_segs (p # ps) [] = None"

definition match_route :: "string \<Rightarrow> string \<Rightarrow> (string \<times> string) list option" where
  "match_route pattern path =
     (if path = [] \<or> hd path \<noteq> CHR ''/'' then None
      else match_segs (segments pattern) (segments path))"

fun dispatch_in ::
  "(verb \<times> string \<times> endpoint) list \<Rightarrow> verb \<Rightarrow> string
     \<Rightarrow> (endpoint \<times> (string \<times> string) list) option" where
  "dispatch_in [] m path = None"
| "dispatch_in ((m', pattern, e) # rs) m path =
     (if m' = m then
        (case match_route pattern path of
           Some params \<Rightarrow> Some (e, params)
         | None \<Rightarrow> dispatch_in rs m path)
      else dispatch_in rs m path)"

definition dispatch :: "verb \<Rightarrow> string \<Rightarrow> (endpoint \<times> (string \<times> string) list) option" where
  "dispatch m path = dispatch_in routes m path"

section \<open>Storage\<close>

text \<open>
  The tables the statements below read, with the columns they inspect typed as the statements
  use them (\<open>None\<close> is SQL NULL) and the columns that are only passed through to the response
  kept as the driver delivers them. Timestamps are numbers of seconds. The schema is not part
  of the repository: \<^verbatim>\<open>user_id\<close>, \<^verbatim>\<open>username\<close>, \<^verbatim>\<open>room_id\<close>, \<^verbatim>\<open>session_id\<close> and
  \<^verbatim>\<open>joined_at\<close> are taken to be NOT NULL.
\<close>

record user =
  u_user_id :: string
  u_username :: string
  u_user_avatar :: jsval
  u_followers_count :: "int option"
  u_following_count :: jsval
  u_friends_count :: jsval
  u_supporter_level :: jsval
  u_verification_status :: jsval
  u_first_seen :: jsval
  u_last_seen :: jsval
  u_profile_views_count :: jsval
  u_total_sessions :: "int option"
  u_total_duration_seconds :: jsval
  u_created_at :: jsval
  u_updated_at :: jsval

text \<open>
  \<open>r_other\<close> holds the columns of a room that no statement modelled here inspects, by name:
  \<^verbatim>\<open>channel, platform, allows_unlimited, mic_allowed, mic_required, no_mic, al_mic, url,
  creator_user_id, creator_avatar, creator_is_verified, is_full, is_empty, created_at,
  updated_at\<close>.
\<close>

record room =
  r_room_id :: string
  r_topic :: "string option"
  r_language :: "string option"
  r_second_language :: jsval
  r_skill_level :: "string option"
  r_max_capacity :: jsval
  r_is_locked :: jsval
  r_creator_name :: jsval
  r_is_active :: "bool option"
  r_current_users_count :: "int option"
  r_first_seen :: jsval
  r_last_activity :: "int option"
  r_other :: "(string \<times> jsval) list"

record session =
  s_session_id :: string
  s_user_id :: string
  s_room_id :: string
  s_joined_at :: int
  s_left_at :: "int option"
  s_duration_seconds :: "int option"
  s_is_currently_active :: bool

record profile_view =
  pv_viewed_user_id :: string
  pv_viewer_ip :: string
  pv_viewer_user_agent :: string
  pv_viewed_at :: int

text \<open>
  The pool and what lies behind it: the tables, the clock (\<^verbatim>\<open>NOW()\<close>), the uniqueness
  policy of \<^verbatim>\<open>profile_views\<close> (whether a new row conflicts with the stored ones), the
  failures of the storage (\<open>db_fault st k = Some msg\<close>: the statement dispatched as number
  \<open>k\<close> is rejected with that message), the statements dispatched so far with their parameter
  arrays, and the lines written by \<^verbatim>\<open>console.error\<close>.
\<close>

record state =
  db_users :: "user list"
  db_rooms :: "room list"
  db_sessions :: "session list"
  db_profile_views :: "profile_view list"
  db_now :: int
  db_conflict :: "profile_view \<Rightarrow> profile_view list \<Rightarrow> bool"
  db_fault :: "nat \<Rightarrow> string option"
  db_log :: "(string \<times> jsval list) list"
  console :: "string list"

text \<open>
  \<^verbatim>\<open>await pool.query(sql, params)\<close> for a reading statement: the statement is recorded as
  dispatched; the promise is rejected (\<open>Inl\<close>) when the storage fails or the statement
  itself raises, and resolves to the rows otherwise.
\<close>

definition pool_query ::
  "string \<Rightarrow> jsval list \<Rightarrow> (state \<Rightarrow> string + 'a) \<Rightarrow> state \<Rightarrow> (string + 'a) \<times> state" where
  "pool_query sql params run st =
     (let st' = st\<lparr>db_log := db_log st @ [(sql, params)]\<rparr>
      in case db_fault st (length (db_log st)) of
           Some msg \<Rightarrow> (Inl msg, st')
         | None \<Rightarrow> (run st, st'))"

datatype response = Response nat jsval

text \<open>
  A request: the path parameters bound by the router, the parsed query string (a missing key
  reads as \<^verbatim>\<open>undefined\<close>), \<^verbatim>\<open>req.ip\<close>, \<^verbatim>\<open>req.connection.remoteAddress\<close> and the
  \<^verbatim>\<open>User-Agent\<close> header (\<open>None\<close>: \<^verbatim>\<open>undefined\<close>).
\<close>

record request =
  req_params :: "(string \<times> string) list"
  req_query :: "(string \<times> jsval) list"
  req_ip :: "string option"
  req_remoteAddress :: "string option"
  req_user_agent :: "string option"

definition path_param :: "request \<Rightarrow> string \<Rightarrow> string" where
  "path_param req k = (case map_of (req_params req) k of None \<Rightarrow> [] | Some v \<Rightarrow> v)"

text \<open>Destructuring with a default, \<^verbatim>\<open>const { k = d } = req.query\<close>: the default replaces \<^verbatim>\<open>undefined\<close>.\<close>

definition query_default :: "request \<Rightarrow> string \<Rightarrow> jsval \<Rightarrow> jsval" where
  "query_default req k d = (if js_get (req_query req) k = JUndef then d else js_get (req_query req) k)"

section \<open>SQL on the tables\<close>

text \<open>An integer column or aggregate as the driver delivers it.\<close>

definition js_int :: "int option \<Rightarrow> jsval" where
  "js_int x = (case x of None \<Rightarrow> JNull | Some n \<Rightarrow> JNum n)"

definition js_text :: "string option \<Rightarrow> jsval" where
  "js_text x = (case x of None \<Rightarrow> JNull | Some s \<Rightarrow> JStr s)"

definition js_bool :: "bool option \<Rightarrow> jsval" where
  "js_bool x = (case x of None \<Rightarrow> JNull | Some b \<Rightarrow> JBool b)"

definition js_timestamp :: "int option \<Rightarrow> jsval" where
  "js_timestamp x = (case x of None \<Rightarrow> JNull | Some t \<Rightarrow> JDate t)"

text \<open>A bigint (\<^verbatim>\<open>COUNT\<close>, \<^verbatim>\<open>SUM\<close> of integers, \<^verbatim>\<open>::BIGINT\<close>) is delivered as its decimal text.\<close>

definition js_bigint :: "int option \<Rightarrow> jsval" where
  "js_bigint x = (case x of None \<Rightarrow> JNull | Some n \<Rightarrow> JStr (show_int n))"

definition js_count :: "nat \<Rightarrow> jsval" where
  "js_count n = JStr (show_nat n)"

text \<open>
  A parameter read as an integer by the server: a number, or decimal text with an optional
  sign and white space around it; anything else is rejected.
\<close>

definition pg_int_text :: "string \<Rightarrow> int option" where
  "pg_int_text s =
     (let t = rev (dropWhile is_space (rev (dropWhile is_space s)));
          ds = (case t of c # cs \<Rightarrow> if c = CHR ''-'' \<or> c = CHR ''+'' then cs else t | [] \<Rightarrow> t)
      in if ds = [] \<or> \<not> list_all (\<lambda>c. radix_val 10 c \<noteq> None) ds then None
         else (case read_digits 10 None ds of
                 None \<Rightarrow> None
               | Some n \<Rightarrow> Some (if hd t = CHR ''-'' then - int n else int n)))"

definition pg_int :: "jsval \<Rightarrow> int option" where
  "pg_int v =
     (case v of
        JNum n \<Rightarrow> Some n
      | JStr s \<Rightarrow> pg_int_text s
      | _ \<Rightarrow> None)"

text \<open>\<^verbatim>\<open>LIMIT $i\<close> and \<^verbatim>\<open>LIMIT $i OFFSET $j\<close>: a negative or unreadable count is an error.\<close>

definition sql_limit :: "jsval \<Rightarrow> 'a list \<Rightarrow> string + 'a list" where
  "sql_limit limit rows =
     (case pg_int limit of
        None \<Rightarrow> Inl ''invalid input syntax for type bigint''
      | Some n \<Rightarrow> if n < 0 then Inl ''LIMIT must not be negative'' else Inr (take (nat n) rows))"

definition sql_limit_offset :: "jsval \<Rightarrow> jsval \<Rightarrow> 'a list \<Rightarrow> string + 'a list" where
  "sql_limit_offset limit offset rows =
     (case pg_int offset of
        None \<Rightarrow> Inl ''invalid input syntax for type bigint''
      | Some k \<Rightarrow>
          if k < 0 then Inl ''OFFSET must not be negative''
          else sql_limit limit (drop (nat k) rows))"

text \<open>
  \<^verbatim>\<open>subject LIKE pattern\<close>: \<^verbatim>\<open>%\<close> matches any text, \<^verbatim>\<open>_\<close> any one character, and a
  backslash makes the character after it literal. A pattern that ends in a lone backslash is
  rejected by the server; the patterns of this file end in \<^verbatim>\<open>%\<close>, and the model answers
  \<open>False\<close> there.
\<close>

fun like :: "string \<Rightarrow> string \<Rightarrow> bool" where
  "like [] s = (s = [])"
| "like (p # ps) [] =
     (if p = CHR ''%'' then like ps [] else False)"
| "like (p # ps) (x # xs) =
     (if p = CHR ''%'' then (like ps (x # xs) \<or> like (p # ps) xs)
      else if p = CHR ''_'' then like ps xs
      else if p = CHR 0x5C then
        (case ps of
           [] \<Rightarrow> False
         | e # ps' \<Rightarrow> x = e \<and> like ps' xs)
      else x = p \<and> like ps xs)"

text \<open>Aggregates over the non-NULL inputs; with none, \<^verbatim>\<open>SUM\<close>, \<^verbatim>\<open>AVG\<close>, \<^verbatim>\<open>MAX\<close>, \<^verbatim>\<open>MIN\<close> are NULL.\<close>

definition non_null :: "'a option list \<Rightarrow> 'a list" where
  "non_null xs = concat (map (\<lambda>x. case x of None \<Rightarrow> [] | Some v \<Rightarrow> [v]) xs)"

definition sql_sum :: "int option list \<Rightarrow> int option" where
  "sql_sum xs = (case non_null xs of [] \<Rightarrow> None | v # vs \<Rightarrow> Some (sum_list (v # vs)))"

definition sql_max :: "int list \<Rightarrow> int option" where
  "sql_max xs = (case xs of [] \<Rightarrow> None | v # vs \<Rightarrow> Some (fold max vs v))"

definition sql_min :: "int list \<Rightarrow> int option" where
  "sql_min xs = (case xs of [] \<Rightarrow> None | v # vs \<Rightarrow> Some (fold min vs v))"

text \<open>The cast \<^verbatim>\<open>::INTEGER\<close> of a quotient rounds to the nearest integer, halves away from zero.\<close>

definition round_div :: "int \<Rightarrow> int \<Rightarrow> int" where
  "round_div a n = (if 0 \<le> a then (2 * a + n) div (2 * n) else - ((2 * (- a) + n) div (2 * n)))"

definition sql_avg_integer :: "int option list \<Rightarrow> int option" where
  "sql_avg_integer xs =
     (case non_null xs of
        [] \<Rightarrow> None
      | v # vs \<Rightarrow> Some (round_div (sum_list (v # vs)) (int (length (v # vs)))))"

definition coalesce :: "'a option \<Rightarrow> 'a \<Rightarrow> 'a" where
  "coalesce x d = (case x of None \<Rightarrow> d | Some v \<Rightarrow> v)"

text \<open>\<^verbatim>\<open>COUNT(DISTINCT e)\<close> over the rows of a group.\<close>

definition count_distinct :: "'a list \<Rightarrow> nat" where
  "count_distinct xs = length (remdups xs)"

text \<open>\<^verbatim>\<open>GROUP BY\<close>: one group for each distinct key, holding the rows with that key.\<close>

definition group_by :: "('a \<Rightarrow> 'k) \<Rightarrow> 'a list \<Rightarrow> ('k \<times> 'a list) list" where
  "group_by key rows = map (\<lambda>k. (k, filter (\<lambda>x. key x = k) rows)) (remdups (map key rows))"

text \<open>
  Sort keys for \<^verbatim>\<open>ORDER BY e DESC\<close>: NULLs come first unless \<^verbatim>\<open>NULLS LAST\<close> is written.
  \<^verbatim>\<open>ORDER BY\<close> is modelled by a stable sort on the key, so rows that the keys do not
  separate stay in the order of the table; the server may return them in any order.
\<close>

definition desc_nulls_last :: "int option \<Rightarrow> nat \<times> int" where
  "desc_nulls_last x = (case x of None \<Rightarrow> (1, 0) | Some v \<Rightarrow> (0, - v))"

definition desc_nulls_first :: "int option \<Rightarrow> nat \<times> int" where
  "desc_nulls_first x = (case x of None \<Rightarrow> (0, 0) | Some v \<Rightarrow> (1, - v))"

definition desc_bool :: "bool option \<Rightarrow> nat" where
  "desc_bool x = (case x of None \<Rightarrow> 0 | Some True \<Rightarrow> 1 | Some False \<Rightarrow> 2)"

section \<open>Profile view recording\<close>

definition insert_profile_view_sql :: string where
  "insert_profile_view_sql =
     ''INSERT INTO profile_views (viewed_user_id, viewer_ip, viewer_user_agent, viewed_at) VALUES ($1, $2, $3, NOW()) ON CONFLICT DO NOTHING''"

text \<open>
  The \<^verbatim>\<open>INSERT ... ON CONFLICT DO NOTHING\<close>: dispatched, then rejected when the storage
  fails; a row that conflicts with the stored ones is dropped without an error.
\<close>

definition pool_insert_profile_view ::
  "string \<Rightarrow> string \<Rightarrow> string \<Rightarrow> state \<Rightarrow> (string + unit) \<times> state" where
  "pool_insert_profile_view viewed ip agent st =
     (let st' = st\<lparr>db_log := db_log st @ [(insert_profile_view_sql, [JStr viewed, JStr ip, JStr agent])]\<rparr>;
          row = \<lparr>pv_viewed_user_id = viewed, pv_viewer_ip = ip, pv_viewer_user_agent = agent,
                 pv_viewed_at = db_now st\<rparr>
      in case db_fault st (length (db_log st)) of
           Some msg \<Rightarrow> (Inl msg, st')
         | None \<Rightarrow>
             if db_conflict st row (db_profile_views st) then (Inr (), st')
             else (Inr (), st'\<lparr>db_profile_views := db_profile_views st @ [row]\<rparr>))"

text \<open>\<^verbatim>\<open>a || b\<close> on texts that may be \<^verbatim>\<open>undefined\<close>: the first non-empty one.\<close>

definition text_or :: "string option \<Rightarrow> string \<Rightarrow> string" where
  "text_or a b = (case a of None \<Rightarrow> b | Some s \<Rightarrow> if s = [] then b else s)"

text \<open>
  \<^verbatim>\<open>recordProfileView\<close> (lines 12 to 27). The result says how the function ends: \<open>Inr ()\<close>
  when it returns, \<open>Inl\<close> when it throws. The body is the \<^verbatim>\<open>try\<close> block, the function is
  the body under its \<^verbatim>\<open>catch\<close>.
\<close>

definition recordProfileView_try :: "string \<Rightarrow> request \<Rightarrow> state \<Rightarrow> (string + unit) \<times> state" where
  "recordProfileView_try userId req st =
     (let viewerIp = text_or (req_ip req) (text_or (req_remoteAddress req) ''unknown'');
          viewerUserAgent = text_or (req_user_agent req) ''Unknown''
      in pool_insert_profile_view userId (take 50 viewerIp) (take 255 viewerUserAgent) st)"

definition recordProfileView :: "string \<Rightarrow> request \<Rightarrow> state \<Rightarrow> (string + unit) \<times> state" where
  "recordProfileView userId req st =
     (case recordProfileView_try userId req st of
        (Inl msg, st') \<Rightarrow>
          (Inr (), st'\<lparr>console := console st' @ [''Failed to record profile view: '' @ msg]\<rparr>)
      | (Inr u, st') \<Rightarrow> (Inr (), st'))"

section \<open>User search\<close>

definition users_search_sql :: string where
  "users_search_sql =
     ''SELECT user_id, username, user_avatar, followers_count, following_count, friends_count, verification_status, supporter_level, last_seen, total_sessions FROM users WHERE LOWER(username) LIKE LOWER($1) OR LOWER(user_id) LIKE LOWER($1) ORDER BY CASE WHEN LOWER(username) = LOWER($2) THEN 1 WHEN LOWER(username) LIKE LOWER($3) THEN 2 ELSE 3 END, followers_count DESC NULLS LAST, total_sessions DESC NULLS LAST LIMIT $4''"

definition users_search_row :: "user \<Rightarrow> jsval" where
  "users_search_row u =
     JObj [(''user_id'', JStr (u_user_id u)),
           (''username'', JStr (u_username u)),
           (''user_avatar'', u_user_avatar u),
           (''followers_count'', js_int (u_followers_count u)),
           (''following_count'', u_following_count u),
           (''friends_count'', u_friends_count u),
           (''verification_status'', u_verification_status u),
           (''supporter_level'', u_supporter_level u),
           (''last_seen'', u_last_seen u),
           (''total_sessions'', js_int (u_total_sessions u))]"

text \<open>The \<^verbatim>\<open>CASE\<close> of the \<^verbatim>\<open>ORDER BY\<close>, with \<open>exact\<close> for \<^verbatim>\<open>$2\<close> and \<open>starts\<close> for \<^verbatim>\<open>$3\<close>.\<close>

definition search_tier :: "string \<Rightarrow> string \<Rightarrow> user \<Rightarrow> nat" where
  "search_tier exact starts u =
     (if lower (u_username u) = lower exact then 1
      else if like (lower starts) (lower (u_username u)) then 2
      else 3)"

definition search_key :: "string \<Rightarrow> string \<Rightarrow> user \<Rightarrow> nat \<times> (nat \<times> int) \<times> (nat \<times> int)" where
  "search_key exact starts u =
     (search_tier exact starts u,
      desc_nulls_last (u_followers_count u),
      desc_nulls_last (u_total_sessions u))"

definition users_search_where :: "string \<Rightarrow> user \<Rightarrow> bool" where
  "users_search_where term u =
     (like (lower term) (lower (u_username u)) \<or> like (lower term) (lower (u_user_id u)))"

definition users_search_ordered :: "string \<Rightarrow> string \<Rightarrow> string \<Rightarrow> user list \<Rightarrow> user list" where
  "users_search_ordered term exact starts us =
     sort_key (search_key exact starts) (filter (users_search_where term) us)"

definition users_search_run ::
  "string \<Rightarrow> string \<Rightarrow> string \<Rightarrow> jsval \<Rightarrow> state \<Rightarrow> string + user list" where
  "users_search_run term exact starts limit st =
     sql_limit limit (users_search_ordered term exact starts (db_users st))"

text \<open>\<^verbatim>\<open>GET /users/search\<close> (lines 32 to 78).\<close>

definition get_users_search :: "request \<Rightarrow> state \<Rightarrow> response \<times> state" where
  "get_users_search req st =
     (let q = js_get (req_query req) ''q'';
          limit = query_default req ''limit'' (JNum 20)
      in if \<not> truthy q then (Response 200 (JArr []), st)
         else if js_lt (js_length q) (JNum 2) then (Response 200 (JArr []), st)
         else
           (let searchTerm = ''%'' @ js_to_string q @ ''%'';
                exactTerm = js_to_string q;
                startsWithTerm = js_to_string q @ ''%''
            in case pool_query users_search_sql
                      [JStr searchTerm, JStr exactTerm, JStr startsWithTerm, limit]
                      (users_search_run searchTerm exactTerm startsWithTerm limit) st of
                 (Inl msg, st') \<Rightarrow>
                   (Response 500 (JObj [(''error'', JStr ''Search failed''), (''details'', JStr msg)]), st')
               | (Inr rows, st') \<Rightarrow> (Response 200 (JArr (map users_search_row rows)), st')))"

section \<open>User profile\<close>

definition user_sql :: string where
  "user_sql =
     ''SELECT user_id, username, user_avatar, followers_count, following_count, friends_count, supporter_level, verification_status, first_seen, last_seen, profile_views_count, total_sessions, total_duration_seconds, created_at, updated_at FROM users WHERE user_id = $1 OR LOWER(username) = LOWER($1)''"

definition user_row :: "user \<Rightarrow> (string \<times> jsval) list" where
  "user_row u =
     [(''user_id'', JStr (u_user_id u)),
      (''username'', JStr (u_username u)),
      (''user_avatar'', u_user_avatar u),
      (''followers_count'', js_int (u_followers_count u)),
      (''following_count'', u_following_count u),
      (''friends_count'', u_friends_count u),
      (''supporter_level'', u_supporter_level u),
      (''verification_status'', u_verification_status u),
      (''first_seen'', u_first_seen u),
      (''last_seen'', u_last_seen u),
      (''profile_views_count'', u_profile_views_count u),
      (''total_sessions'', js_int (u_total_sessions u)),
      (''total_duration_seconds'', u_total_duration_seconds u),
      (''created_at'', u_created_at u),
      (''updated_at'', u_updated_at u)]"

definition user_where :: "string \<Rightarrow> user \<Rightarrow> bool" where
  "user_where p u = (u_user_id u = p \<or> lower (u_username u) = lower p)"

definition user_run :: "string \<Rightarrow> state \<Rightarrow> string + user list" where
  "user_run p st = Inr (filter (user_where p) (db_users st))"

definition user_stats_sql :: string where
  "user_stats_sql =
     ''SELECT COUNT(DISTINCT room_id) as total_rooms_visited, COUNT(DISTINCT session_id) as total_sessions, COALESCE(SUM(duration_seconds), 0)::BIGINT as total_duration_seconds, COALESCE(AVG(duration_seconds), 0)::INTEGER as avg_session_duration, MAX(joined_at) as last_active, COUNT(CASE WHEN is_currently_active THEN 1 END) > 0 as is_currently_active FROM sessions WHERE user_id = $1''"

text \<open>An aggregate without \<^verbatim>\<open>GROUP BY\<close> returns one row, also over no sessions.\<close>

definition user_stats_run :: "string \<Rightarrow> state \<Rightarrow> string + (string \<times> jsval) list list" where
  "user_stats_run uid st =
     (let ss = filter (\<lambda>s. s_user_id s = uid) (db_sessions st)
      in Inr [[(''total_rooms_visited'', js_count (count_distinct (map s_room_id ss))),
               (''total_sessions'', js_count (count_distinct (map s_session_id ss))),
               (''total_duration_seconds'',
                  js_bigint (Some (coalesce (sql_sum (map s_duration_seconds ss)) 0))),
               (''avg_session_duration'',
                  js_int (Some (coalesce (sql_avg_integer (map s_duration_seconds ss)) 0))),
               (''last_active'', js_timestamp (sql_max (map s_joined_at ss))),
               (''is_currently_active'',
                  JBool (0 < length (filter s_is_currently_active ss)))]])"

definition fav_lang_sql :: string where
  "fav_lang_sql =
     ''SELECT r.language, COUNT(*) as visit_count FROM sessions s JOIN rooms r ON s.room_id = r.room_id WHERE s.user_id = $1 GROUP BY r.language ORDER BY visit_count DESC LIMIT 1''"

definition fav_lang_run :: "string \<Rightarrow> state \<Rightarrow> string + (string \<times> jsval) list list" where
  "fav_lang_run uid st =
     (let joined = concat (map (\<lambda>s. map (\<lambda>r. (s, r))
                       (filter (\<lambda>r. s_room_id s = r_room_id r) (db_rooms st)))
                     (filter (\<lambda>s. s_user_id s = uid) (db_sessions st)));
          groups = group_by (\<lambda>(s, r). r_language r) joined;
          ordered = sort_key (\<lambda>(k, g). - int (length g)) groups
      in Inr (map (\<lambda>(k, g). [(''language'', js_text k), (''visit_count'', js_count (length g))])
                (take 1 ordered)))"

text \<open>\<^verbatim>\<open>result.rows[0] || {}\<close> (lines 131 and 387).\<close>

definition first_row :: "(string \<times> jsval) list list \<Rightarrow> (string \<times> jsval) list" where
  "first_row rows = (case rows of [] \<Rightarrow> [] | row # rest \<Rightarrow> row)"

text \<open>\<^verbatim>\<open>favLangResult.rows[0]?.language || null\<close> (line 144).\<close>

definition favorite_of :: "(string \<times> jsval) list list \<Rightarrow> jsval" where
  "favorite_of favRows =
     (case favRows of [] \<Rightarrow> JNull | row # rest \<Rightarrow> js_or (js_get row ''language'') JNull)"

text \<open>The object literal of the response (lines 151 to 171).\<close>

definition profile_body ::
  "(string \<times> jsval) list \<Rightarrow> (string \<times> jsval) list \<Rightarrow> jsval \<Rightarrow> (string \<times> jsval) list" where
  "profile_body user stats favoriteLanguage =
     js_set ''statistics''
       (JObj [(''total_rooms_visited'', js_or (parseInt (js_get stats ''total_rooms_visited'')) (JNum 0)),
              (''total_sessions'', js_or (parseInt (js_get stats ''total_sessions'')) (JNum 0)),
              (''total_duration_seconds'', js_or (parseInt (js_get stats ''total_duration_seconds'')) (JNum 0)),
              (''avg_session_duration'', js_or (parseInt (js_get stats ''avg_session_duration'')) (JNum 0)),
              (''favorite_language'', favoriteLanguage),
              (''last_active'', js_or (js_get stats ''last_active'') (js_get user ''last_seen'')),
              (''is_currently_active'', js_or (js_get stats ''is_currently_active'') (JBool False))])
     (js_set ''total_duration_seconds'' (js_or (js_get user ''total_duration_seconds'') (JNum 0))
     (js_set ''total_sessions'' (js_or (js_get user ''total_sessions'') (JNum 0))
     (js_set ''profile_views_count'' (js_or (js_get user ''profile_views_count'') (JNum 0))
     (js_set ''supporter_level'' (js_or (js_get user ''supporter_level'') (JNum 0))
     (js_set ''friends_count'' (js_or (js_get user ''friends_count'') (JNum 0))
     (js_set ''following_count'' (js_or (js_get user ''following_count'') (JNum 0))
     (js_set ''followers_count'' (js_or (js_get user ''followers_count'') (JNum 0)) user)))))))"

text \<open>
  \<^verbatim>\<open>GET /users/:userId\<close> (lines 83 to 177). Every rejected query lands in the one
  \<^verbatim>\<open>catch\<close>; \<^verbatim>\<open>recordProfileView\<close> is awaited and, should it throw, lands there too.
\<close>

definition get_user_failed :: "string \<Rightarrow> response" where
  "get_user_failed msg = Response 500 (JObj [(''error'', JStr ''Failed to get user''), (''details'', JStr msg)])"

definition get_user_profile :: "request \<Rightarrow> state \<Rightarrow> response \<times> state" where
  "get_user_profile req st =
     (let userId = path_param req ''userId'';
          record_view = query_default req ''record_view'' (JStr ''false'')
      in case pool_query user_sql [JStr userId] (user_run userId) st of
           (Inl msg, st1) \<Rightarrow> (get_user_failed msg, st1)
         | (Inr [], st1) \<Rightarrow> (Response 404 (JObj [(''error'', JStr ''User not found'')]), st1)
         | (Inr (u # us), st1) \<Rightarrow>
             (let user = user_row u
              in case pool_query user_stats_sql [js_get user ''user_id'']
                        (user_stats_run (u_user_id u)) st1 of
                   (Inl msg, st2) \<Rightarrow> (get_user_failed msg, st2)
                 | (Inr statsRows, st2) \<Rightarrow>
                     (let stats = first_row statsRows
                      in case pool_query fav_lang_sql [js_get user ''user_id'']
                                (fav_lang_run (u_user_id u)) st2 of
                           (Inl msg, st3) \<Rightarrow> (get_user_failed msg, st3)
                         | (Inr favRows, st3) \<Rightarrow>
                             (let favoriteLanguage = favorite_of favRows
                              in case (if record_view = JStr ''true''
                                       then recordProfileView (u_user_id u) req st3
                                       else (Inr (), st3)) of
                                   (Inl msg, st4) \<Rightarrow> (get_user_failed msg, st4)
                                 | (Inr done, st4) \<Rightarrow>
                                     (Response 200 (JObj (profile_body user stats favoriteLanguage)),
                                      st4)))))"

section \<open>Recording a view by POST\<close>

definition user_check_sql :: string where
  "user_check_sql = ''SELECT user_id FROM users WHERE user_id = $1''"

definition user_check_run :: "string \<Rightarrow> state \<Rightarrow> string + user list" where
  "user_check_run p st = Inr (filter (\<lambda>u. u_user_id u = p) (db_users st))"

definition record_view_failed :: "string \<Rightarrow> response" where
  "record_view_failed msg =
     Response 500 (JObj [(''error'', JStr ''Failed to record view''), (''details'', JStr msg)])"

text \<open>\<^verbatim>\<open>POST /users/:userId/view\<close> (lines 987 to 1005).\<close>

definition post_user_view :: "request \<Rightarrow> state \<Rightarrow> response \<times> state" where
  "post_user_view req st =
     (let userId = path_param req ''userId''
      in case pool_query user_check_sql [JStr userId] (user_check_run userId) st of
           (Inl msg, st1) \<Rightarrow> (record_view_failed msg, st1)
         | (Inr [], st1) \<Rightarrow> (Response 404 (JObj [(''error'', JStr ''User not found'')]), st1)
         | (Inr (u # us), st1) \<Rightarrow>
             (case recordProfileView userId req st1 of
                (Inl msg, st2) \<Rightarrow> (record_view_failed msg, st2)
              | (Inr done, st2) \<Rightarrow>
                  (Response 200
                     (JObj [(''success'', JBool True), (''message'', JStr ''Profile view recorded'')]),
                   st2)))"

section \<open>Room details\<close>

definition room_sql :: string where
  "room_sql =
     ''SELECT room_id, channel, platform, topic, language, second_language, skill_level, max_capacity, allows_unlimited, is_locked, mic_allowed, mic_required, no_mic, al_mic, url, creator_user_id, creator_name, creator_avatar, creator_is_verified, is_active, is_full, is_empty, current_users_count, first_seen, last_activity, created_at, updated_at FROM rooms WHERE room_id = $1''"

definition room_row :: "room \<Rightarrow> (string \<times> jsval) list" where
  "room_row r =
     [(''room_id'', JStr (r_room_id r)),
      (''topic'', js_text (r_topic r)),
      (''language'', js_text (r_language r)),
      (''second_language'', r_second_language r),
      (''skill_level'', js_text (r_skill_level r)),
      (''max_capacity'', r_max_capacity r),
      (''is_locked'', r_is_locked r),
      (''creator_name'', r_creator_name r),
      (''is_active'', js_bool (r_is_active r)),
      (''current_users_count'', js_int (r_current_users_count r)),
      (''first_seen'', r_first_seen r),
      (''last_activity'', js_timestamp (r_last_activity r))] @ r_other r"

definition room_run :: "string \<Rightarrow> state \<Rightarrow> string + room list" where
  "room_run roomId st = Inr (filter (\<lambda>r. r_room_id r = roomId) (db_rooms st))"

definition room_stats_sql :: string where
  "room_stats_sql =
     ''SELECT COUNT(DISTINCT user_id) as total_unique_participants, COUNT(session_id) as total_sessions, COALESCE(AVG(duration_seconds), 0)::INTEGER as avg_duration_seconds, COALESCE(MAX(duration_seconds), 0) as max_duration_seconds, MIN(joined_at) as first_activity, MAX(COALESCE(left_at, joined_at)) as last_activity, COUNT(CASE WHEN is_currently_active THEN 1 END) as currently_active_users FROM sessions WHERE room_id = $1''"

text \<open>The number the claim calls the room's \<^verbatim>\<open>currently_active_users\<close> count.\<close>

definition currently_active_users :: "state \<Rightarrow> string \<Rightarrow> nat" where
  "currently_active_users st roomId =
     length (filter s_is_currently_active (filter (\<lambda>s. s_room_id s = roomId) (db_sessions st)))"

definition room_stats_run :: "string \<Rightarrow> state \<Rightarrow> string + (string \<times> jsval) list list" where
  "room_stats_run roomId st =
     (let ss = filter (\<lambda>s. s_room_id s = roomId) (db_sessions st)
      in Inr [[(''total_unique_participants'', js_count (count_distinct (map s_user_id ss))),
               (''total_sessions'', js_count (length ss)),
               (''avg_duration_seconds'',
                  js_int (Some (coalesce (sql_avg_integer (map s_duration_seconds ss)) 0))),
               (''max_duration_seconds'',
                  js_int (Some (coalesce (sql_max (non_null (map s_duration_seconds ss))) 0))),
               (''first_activity'', js_timestamp (sql_min (map s_joined_at ss))),
               (''last_activity'',
                  js_timestamp (sql_max (map (\<lambda>s. coalesce (s_left_at s) (s_joined_at s)) ss))),
               (''currently_active_users'', js_count (currently_active_users st roomId))]])"

text \<open>The object literal of the response (lines 391 to 403).\<close>

definition room_body :: "(string \<times> jsval) list \<Rightarrow> (string \<times> jsval) list \<Rightarrow> (string \<times> jsval) list" where
  "room_body room stats =
     js_set ''statistics''
       (JObj [(''total_unique_participants'',
                 js_or (parseInt (js_get stats ''total_unique_participants'')) (JNum 0)),
              (''total_sessions'', js_or (parseInt (js_get stats ''total_sessions'')) (JNum 0)),
              (''avg_duration_seconds'', js_or (parseInt (js_get stats ''avg_duration_seconds'')) (JNum 0)),
              (''max_duration_seconds'', js_or (parseInt (js_get stats ''max_duration_seconds'')) (JNum 0)),
              (''first_activity'', js_or (js_get stats ''first_activity'') (js_get room ''first_seen'')),
              (''last_activity'', js_or (js_get stats ''last_activity'') (js_get room ''last_activity'')),
              (''currently_active_users'',
                 js_or (parseInt (js_get stats ''currently_active_users'')) (JNum 0)),
              (''is_currently_active'',
                 js_and (js_get room ''is_active'')
                   (JBool (js_gt (parseInt (js_get stats ''currently_active_users'')) (JNum 0))))])
       room"

definition get_room_failed :: "string \<Rightarrow> response" where
  "get_room_failed msg = Response 500 (JObj [(''error'', JStr ''Failed to get room''), (''details'', JStr msg)])"

text \<open>\<^verbatim>\<open>GET /rooms/:roomId\<close> (lines 329 to 409).\<close>

definition get_room :: "request \<Rightarrow> state \<Rightarrow> response \<times> state" where
  "get_room req st =
     (let roomId = path_param req ''roomId''
      in case pool_query room_sql [JStr roomId] (room_run roomId) st of
           (Inl msg, st1) \<Rightarrow> (get_room_failed msg, st1)
         | (Inr [], st1) \<Rightarrow> (Response 404 (JObj [(''error'', JStr ''Room not found'')]), st1)
         | (Inr (r # rs), st1) \<Rightarrow>
             (case pool_query room_stats_sql [JStr roomId] (room_stats_run roomId) st1 of
                (Inl msg, st2) \<Rightarrow> (get_room_failed msg, st2)
              | (Inr statsRows, st2) \<Rightarrow>
                  (let stats = first_row statsRows;
                       room = room_row r
                   in (Response 200 (JObj (room_body room stats)), st2))))"

section \<open>Room search\<close>

definition rooms_search_sql :: "string \<Rightarrow> string" where
  "rooms_search_sql whereClause =
     ''SELECT room_id, topic, language, second_language, skill_level, is_active, current_users_count, max_capacity, is_locked, last_activity, creator_name FROM rooms WHERE ''
     @ whereClause
     @ '' ORDER BY is_active DESC, current_users_count DESC, last_activity DESC LIMIT $2''"

definition rooms_search_row :: "room \<Rightarrow> jsval" where
  "rooms_search_row r =
     JObj [(''room_id'', JStr (r_room_id r)),
           (''topic'', js_text (r_topic r)),
           (''language'', js_text (r_language r)),
           (''second_language'', r_second_language r),
           (''skill_level'', js_text (r_skill_level r)),
           (''is_active'', js_bool (r_is_active r)),
           (''current_users_count'', js_int (r_current_users_count r)),
           (''max_capacity'', r_max_capacity r),
           (''is_locked'', r_is_locked r),
           (''last_activity'', js_timestamp (r_last_activity r)),
           (''creator_name'', r_creator_name r)]"

text \<open>\<^verbatim>\<open>LOWER(column) LIKE LOWER($1)\<close> on a column that may be NULL: NULL does not match.\<close>

definition like_column :: "string \<Rightarrow> string option \<Rightarrow> bool" where
  "like_column term x = (case x of None \<Rightarrow> False | Some s \<Rightarrow> like (lower term) (lower s))"

definition rooms_search_run :: "bool \<Rightarrow> string \<Rightarrow> jsval \<Rightarrow> state \<Rightarrow> string + room list" where
  "rooms_search_run active_only term limit st =
     sql_limit limit
       (sort_key (\<lambda>r. (desc_bool (r_is_active r),
                       desc_nulls_first (r_current_users_count r),
                       desc_nulls_first (r_last_activity r)))
          (filter (\<lambda>r. (like_column term (r_topic r) \<or> like_column term (r_language r))
                       \<and> (if active_only then r_is_active r = Some True else True))
             (db_rooms st)))"

text \<open>\<^verbatim>\<open>GET /rooms/search\<close> (lines 847 to 889).\<close>

definition get_rooms_search :: "request \<Rightarrow> state \<Rightarrow> response \<times> state" where
  "get_rooms_search req st =
     (let q = js_get (req_query req) ''q'';
          limit = query_default req ''limit'' (JNum 20);
          active_only = query_default req ''active_only'' (JStr ''false'')
      in if \<not> truthy q then (Response 200 (JArr []), st)
         else if js_lt (js_length q) (JNum 2) then (Response 200 (JArr []), st)
         else
           (let whereClause0 = ''(LOWER(topic) LIKE LOWER($1) OR LOWER(language) LIKE LOWER($1))'';
                whereClause =
                  (if active_only = JStr ''true'' then whereClause0 @ '' AND is_active = true''
                   else whereClause0);
                term = ''%'' @ js_to_string q @ ''%''
            in case pool_query (rooms_search_sql whereClause) [JStr term, limit]
                      (rooms_search_run (active_only = JStr ''true'') term limit) st of
                 (Inl msg, st') \<Rightarrow>
                   (Response 500
                      (JObj [(''error'', JStr ''Failed to search rooms''), (''details'', JStr msg)]), st')
               | (Inr rows, st') \<Rightarrow> (Response 200 (JArr (map rooms_search_row rows)), st')))"

section \<open>Room history of a user\<close>

text \<open>
  The text a parameter has on the server. The driver sends a string as it is; its text for
  an array or an object is not modelled, the ToString text stands in for it.
\<close>

definition pg_text :: "jsval \<Rightarrow> string" where
  "pg_text v = (case v of JStr s \<Rightarrow> s | _ \<Rightarrow> js_to_string v)"

text \<open>
  The assembly of the two statements of \<^verbatim>\<open>GET /users/:userId/rooms\<close> (lines 226 to 275):
  the listing with its parameter array, and the count with the array it is given,
  \<^verbatim>\<open>params.slice(0, paramCount)\<close>.
\<close>

definition user_rooms_build ::
  "string \<Rightarrow> jsval \<Rightarrow> jsval \<Rightarrow> jsval \<Rightarrow> jsval
     \<Rightarrow> (string \<times> jsval list) \<times> (string \<times> jsval list)" where
  "user_rooms_build userId limit offset language skill_level =
     (let whereClause0 = ''s.user_id = $1'';
          params0 = [JStr userId];
          paramCount0 = (1::nat);
          paramCount1 = (if truthy language then paramCount0 + 1 else paramCount0);
          whereClause1 =
            (if truthy language then whereClause0 @ '' AND r.language = $'' @ show_nat paramCount1
             else whereClause0);
          params1 = (if truthy language then params0 @ [language] else params0);
          paramCount2 = (if truthy skill_level then paramCount1 + 1 else paramCount1);
          whereClause2 =
            (if truthy skill_level then whereClause1 @ '' AND r.skill_level = $'' @ show_nat paramCount2
             else whereClause1);
          params2 = (if truthy skill_level then params1 @ [skill_level] else params1);
          query =
            ''SELECT r.room_id, r.language, r.second_language, r.skill_level, r.topic, r.is_active, r.current_users_count, r.max_capacity, MAX(s.joined_at) as last_visit, MIN(s.joined_at) as first_visit, COUNT(s.session_id) as total_visits, SUM(s.duration_seconds) as total_time_seconds, AVG(s.duration_seconds)::INTEGER as avg_session_duration FROM sessions s JOIN rooms r ON s.room_id = r.room_id WHERE ''
            @ whereClause2
            @ '' GROUP BY r.room_id, r.language, r.second_language, r.skill_level, r.topic, r.is_active, r.current_users_count, r.max_capacity ORDER BY last_visit DESC LIMIT $''
            @ show_nat (paramCount2 + 1) @ '' OFFSET $'' @ show_nat (paramCount2 + 2);
          params3 = params2 @ [limit, offset];
          countQuery =
            ''SELECT COUNT(DISTINCT s.room_id) as total FROM sessions s JOIN rooms r ON s.room_id = r.room_id WHERE ''
            @ whereClause2
      in ((query, params3), (countQuery, take paramCount2 params3)))"

text \<open>The rows of \<^verbatim>\<open>sessions s JOIN rooms r\<close> that pass the assembled \<^verbatim>\<open>WHERE\<close>.\<close>

definition user_rooms_joined :: "string \<Rightarrow> jsval \<Rightarrow> jsval \<Rightarrow> state \<Rightarrow> (session \<times> room) list" where
  "user_rooms_joined userId language skill_level st =
     filter (\<lambda>(s, r).
         s_user_id s = userId
         \<and> (if truthy language then r_language r = Some (pg_text language) else True)
         \<and> (if truthy skill_level then r_skill_level r = Some (pg_text skill_level) else True))
       (concat (map (\<lambda>s. map (\<lambda>r. (s, r))
                  (filter (\<lambda>r. s_room_id s = r_room_id r) (db_rooms st)))
               (db_sessions st)))"

definition user_rooms_key ::
  "session \<times> room
     \<Rightarrow> string \<times> string option \<times> jsval \<times> string option \<times> string option \<times> bool option
         \<times> int option \<times> jsval" where
  "user_rooms_key sr =
     (case sr of (s, r) \<Rightarrow>
        (r_room_id r, r_language r, r_second_language r, r_skill_level r, r_topic r,
         r_is_active r, r_current_users_count r, r_max_capacity r))"

definition user_rooms_row ::
  "(string \<times> string option \<times> jsval \<times> string option \<times> string option \<times> bool option
      \<times> int option \<times> jsval) \<times> (session \<times> room) list \<Rightarrow> jsval" where
  "user_rooms_row kg =
     (case kg of ((room_id, language, second_language, skill_level, topic, is_active,
                   current_users_count, max_capacity), g) \<Rightarrow>
        JObj [(''room_id'', JStr room_id),
              (''language'', js_text language),
              (''second_language'', second_language),
              (''skill_level'', js_text skill_level),
              (''topic'', js_text topic),
              (''is_active'', js_bool is_active),
              (''current_users_count'', js_int current_users_count),
              (''max_capacity'', max_capacity),
              (''last_visit'', js_timestamp (sql_max (map (\<lambda>(s, r). s_joined_at s) g))),
              (''first_visit'', js_timestamp (sql_min (map (\<lambda>(s, r). s_joined_at s) g))),
              (''total_visits'', js_count (length g)),
              (''total_time_seconds'', js_bigint (sql_sum (map (\<lambda>(s, r). s_duration_seconds s) g))),
              (''avg_session_duration'',
                 js_int (sql_avg_integer (map (\<lambda>(s, r). s_duration_seconds s) g)))])"

definition user_rooms_run ::
  "string \<Rightarrow> jsval \<Rightarrow> jsval \<Rightarrow> jsval \<Rightarrow> jsval \<Rightarrow> state \<Rightarrow> string + jsval list" where
  "user_rooms_run userId language skill_level limit offset st =
     (let groups = group_by user_rooms_key (user_rooms_joined userId language skill_level st);
          ordered = sort_key (\<lambda>(k, g). desc_nulls_first (sql_max (map (\<lambda>(s, r). s_joined_at s) g))) groups
      in case sql_limit_offset limit offset ordered of
           Inl msg \<Rightarrow> Inl msg
         | Inr page \<Rightarrow> Inr (map user_rooms_row page))"

definition user_rooms_count_run ::
  "string \<Rightarrow> jsval \<Rightarrow> jsval \<Rightarrow> state \<Rightarrow> string + (string \<times> jsval) list list" where
  "user_rooms_count_run userId language skill_level st =
     Inr [[(''total'',
            js_count (count_distinct
              (map (\<lambda>(s, r). s_room_id s) (user_rooms_joined userId language skill_level st))))]]"

definition get_rooms_failed :: "string \<Rightarrow> response" where
  "get_rooms_failed msg = Response 500 (JObj [(''error'', JStr ''Failed to get rooms''), (''details'', JStr msg)])"

text \<open>
  \<^verbatim>\<open>GET /users/:userId/rooms\<close> (lines 221 to 291). The rows go into the response as the
  query returned them. The count query has no \<^verbatim>\<open>GROUP BY\<close> and returns one row; were there
  none, reading \<^verbatim>\<open>rows[0].total\<close> would throw into the \<^verbatim>\<open>catch\<close>.
\<close>

definition get_user_rooms :: "request \<Rightarrow> state \<Rightarrow> response \<times> state" where
  "get_user_rooms req st =
     (let userId = path_param req ''userId'';
          limit = query_default req ''limit'' (JNum 50);
          offset = query_default req ''offset'' (JNum 0);
          language = js_get (req_query req) ''language'';
          skill_level = js_get (req_query req) ''skill_level'';
          built = user_rooms_build userId limit offset language skill_level
      in case pool_query (fst (fst built)) (snd (fst built))
                (user_rooms_run userId language skill_level limit offset) st of
           (Inl msg, st1) \<Rightarrow> (get_rooms_failed msg, st1)
         | (Inr rows, st1) \<Rightarrow>
             (case pool_query (fst (snd built)) (snd (snd built))
                     (user_rooms_count_run userId language skill_level) st1 of
                (Inl msg, st2) \<Rightarrow> (get_rooms_failed msg, st2)
              | (Inr [], st2) \<Rightarrow>
                  (get_rooms_failed ''Cannot read properties of undefined (reading 'total')'', st2)
              | (Inr (countRow # rest), st2) \<Rightarrow>
                  (Response 200
                     (JObj [(''rooms'', JArr rows),
                            (''pagination'',
                               JObj [(''total'', parseInt (js_get countRow ''total'')),
                                     (''limit'', parseInt limit),
                                     (''offset'', parseInt offset),
                                     (''has_more'',
                                        JBool (js_lt (js_add (parseInt offset) (JNum (int (length rows))))
                                                 (parseInt (js_get countRow ''total''))))])]),
                   st2)))"

section \<open>Shared rooms\<close>

definition shared_rooms_sql :: string where
  "shared_rooms_sql =
     ''SELECT r.room_id, r.language, r.topic, r.skill_level, r.is_active, COUNT(DISTINCT s1.session_id) as user1_sessions, COUNT(DISTINCT s2.session_id) as user2_sessions, COUNT(DISTINCT CASE WHEN s1.joined_at <= COALESCE(s2.left_at, NOW()) AND s2.joined_at <= COALESCE(s1.left_at, NOW()) THEN s1.session_id END) as overlap_count, MAX(LEAST( COALESCE(s1.left_at, NOW()), COALESCE(s2.left_at, NOW()) )) as last_overlap_time, MIN(GREATEST(s1.joined_at, s2.joined_at)) as first_overlap_time FROM rooms r JOIN sessions s1 ON r.room_id = s1.room_id AND s1.user_id = $1 JOIN sessions s2 ON r.room_id = s2.room_id AND s2.user_id = $2 GROUP BY r.room_id, r.language, r.topic, r.skill_level, r.is_active HAVING COUNT(DISTINCT CASE WHEN s1.joined_at <= COALESCE(s2.left_at, NOW()) AND s2.joined_at <= COALESCE(s1.left_at, NOW()) THEN s1.session_id END) >= $3 ORDER BY overlap_count DESC, last_overlap_time DESC''"

text \<open>The \<^verbatim>\<open>WHEN\<close> condition of the query: the two sessions intersect, an open one lasting until now.\<close>

definition overlaps :: "int \<Rightarrow> session \<Rightarrow> session \<Rightarrow> bool" where
  "overlaps now s1 s2 =
     (s_joined_at s1 \<le> coalesce (s_left_at s2) now \<and> s_joined_at s2 \<le> coalesce (s_left_at s1) now)"

text \<open>\<^verbatim>\<open>rooms r JOIN sessions s1 ON ... JOIN sessions s2 ON ...\<close>.\<close>

definition shared_join :: "string \<Rightarrow> string \<Rightarrow> state \<Rightarrow> (room \<times> session \<times> session) list" where
  "shared_join user1Id user2Id st =
     concat (map (\<lambda>r.
       concat (map (\<lambda>s1.
         map (\<lambda>s2. (r, s1, s2))
           (filter (\<lambda>s2. r_room_id r = s_room_id s2 \<and> s_user_id s2 = user2Id) (db_sessions st)))
         (filter (\<lambda>s1. r_room_id r = s_room_id s1 \<and> s_user_id s1 = user1Id) (db_sessions st))))
       (db_rooms st))"

definition shared_key ::
  "room \<times> session \<times> session \<Rightarrow> string \<times> string option \<times> string option \<times> string option \<times> bool option" where
  "shared_key j =
     (case j of (r, s1, s2) \<Rightarrow> (r_room_id r, r_language r, r_topic r, r_skill_level r, r_is_active r))"

record shared_row =
  sh_room_id :: string
  sh_language :: "string option"
  sh_topic :: "string option"
  sh_skill_level :: "string option"
  sh_is_active :: "bool option"
  user1_sessions :: nat
  user2_sessions :: nat
  overlap_count :: nat
  last_overlap_time :: "int option"
  first_overlap_time :: "int option"

definition shared_row_of ::
  "int \<Rightarrow> (string \<times> string option \<times> string option \<times> string option \<times> bool option)
     \<times> (room \<times> session \<times> session) list \<Rightarrow> shared_row" where
  "shared_row_of now kg =
     (case kg of ((room_id, language, topic, skill_level, is_active), g) \<Rightarrow>
        \<lparr>sh_room_id = room_id,
         sh_language = language,
         sh_topic = topic,
         sh_skill_level = skill_level,
         sh_is_active = is_active,
         user1_sessions = count_distinct (map (\<lambda>(r, s1, s2). s_session_id s1) g),
         user2_sessions = count_distinct (map (\<lambda>(r, s1, s2). s_session_id s2) g),
         overlap_count =
           count_distinct (map (\<lambda>(r, s1, s2). s_session_id s1)
                             (filter (\<lambda>(r, s1, s2). overlaps now s1 s2) g)),
         last_overlap_time =
           sql_max (map (\<lambda>(r, s1, s2). min (coalesce (s_left_at s1) now) (coalesce (s_left_at s2) now)) g),
         first_overlap_time =
           sql_min (map (\<lambda>(r, s1, s2). max (s_joined_at s1) (s_joined_at s2)) g)\<rparr>)"

text \<open>The rows before \<^verbatim>\<open>HAVING\<close> and \<^verbatim>\<open>ORDER BY\<close>, one for each group.\<close>

definition shared_groups :: "string \<Rightarrow> string \<Rightarrow> state \<Rightarrow> shared_row list" where
  "shared_groups user1Id user2Id st =
     map (shared_row_of (db_now st)) (group_by shared_key (shared_join user1Id user2Id st))"

definition shared_rooms_rows :: "string \<Rightarrow> string \<Rightarrow> int \<Rightarrow> state \<Rightarrow> shared_row list" where
  "shared_rooms_rows user1Id user2Id min_overlaps st =
     sort_key (\<lambda>row. (- int (overlap_count row), desc_nulls_first (last_overlap_time row)))
       (filter (\<lambda>row. min_overlaps \<le> int (overlap_count row)) (shared_groups user1Id user2Id st))"

definition shared_rooms_run :: "string \<Rightarrow> string \<Rightarrow> jsval \<Rightarrow> state \<Rightarrow> string + shared_row list" where
  "shared_rooms_run user1Id user2Id min_overlaps st =
     (case pg_int min_overlaps of
        None \<Rightarrow> Inl ''invalid input syntax for type bigint''
      | Some m \<Rightarrow> Inr (shared_rooms_rows user1Id user2Id m st))"

definition shared_row_js :: "shared_row \<Rightarrow> jsval" where
  "shared_row_js row =
     JObj [(''room_id'', JStr (sh_room_id row)),
           (''language'', js_text (sh_language row)),
           (''topic'', js_text (sh_topic row)),
           (''skill_level'', js_text (sh_skill_level row)),
           (''is_active'', js_bool (sh_is_active row)),
           (''user1_sessions'', js_count (user1_sessions row)),
           (''user2_sessions'', js_count (user2_sessions row)),
           (''overlap_count'', js_count (overlap_count row)),
           (''last_overlap_time'', js_timestamp (last_overlap_time row)),
           (''first_overlap_time'', js_timestamp (first_overlap_time row))]"

text \<open>\<^verbatim>\<open>GET /users/:user1Id/shared/:user2Id\<close> (lines 585 to 628).\<close>

definition get_shared_rooms :: "request \<Rightarrow> state \<Rightarrow> response \<times> state" where
  "get_shared_rooms req st =
     (let user1Id = path_param req ''user1Id'';
          user2Id = path_param req ''user2Id'';
          min_overlaps = query_default req ''min_overlaps'' (JNum 1)
      in case pool_query shared_rooms_sql [JStr user1Id, JStr user2Id, min_overlaps]
                (shared_rooms_run user1Id user2Id min_overlaps) st of
           (Inl msg, st') \<Rightarrow>
             (Response 500
                (JObj [(''error'', JStr ''Failed to find shared rooms''), (''details'', JStr msg)]), st')
         | (Inr rows, st') \<Rightarrow> (Response 200 (JArr (map shared_row_js rows)), st'))"

section \<open>Statements assembled from optional filters\<close>

text \<open>
  The assembly code of the other handlers that build their statement from the filters of the
  request; each function returns the statement text with the parameter array passed with it.
  All of them are written from the handlers' own lines; their queries are not evaluated here.
\<close>

text \<open>\<^verbatim>\<open>GET /rooms/:roomId/timeline\<close> (lines 473 to 501).\<close>

definition timeline_build :: "string \<Rightarrow> jsval \<Rightarrow> jsval \<Rightarrow> jsval \<Rightarrow> string \<times> jsval list" where
  "timeline_build roomId limit offset event_type =
     (let whereClause0 = ''s.room_id = $1'';
          params0 = [JStr roomId];
          filtered = (truthy event_type \<and> (event_type = JStr ''join'' \<or> event_type = JStr ''leave''));
          params1 = (if filtered then params0 @ [event_type] else params0);
          whereClause1 =
            (if filtered then whereClause0 @ '' AND s.event_type = $'' @ show_nat (length params1)
             else whereClause0);
          query =
            ''SELECT s.session_id, s.user_id, u.username, u.user_avatar, u.verification_status, s.joined_at, s.left_at, s.duration_seconds, s.event_type, s.is_currently_active FROM sessions s JOIN users u ON s.user_id = u.user_id WHERE ''
            @ whereClause1
            @ '' ORDER BY s.joined_at DESC LIMIT $'' @ show_nat (length params1 + 1)
            @ '' OFFSET $'' @ show_nat (length params1 + 2);
          params2 = params1 @ [limit, offset]
      in (query, params2))"

text \<open>
  \<^verbatim>\<open>GET /rooms/:roomId/snapshots\<close> (lines 519 to 564): the listing, and the count with
  \<^verbatim>\<open>params.slice(0, params.length - 2)\<close>.
\<close>

definition snapshots_build ::
  "string \<Rightarrow> jsval \<Rightarrow> jsval \<Rightarrow> jsval \<Rightarrow> jsval
     \<Rightarrow> (string \<times> jsval list) \<times> (string \<times> jsval list)" where
  "snapshots_build roomId limit offset start_date end_date =
     (let whereClause0 = ''room_id = $1'';
          params0 = [JStr roomId];
          params1 = (if truthy start_date then params0 @ [start_date] else params0);
          whereClause1 =
            (if truthy start_date
             then whereClause0 @ '' AND snapshot_time >= $'' @ show_nat (length params1)
             else whereClause0);
          params2 = (if truthy end_date then params1 @ [end_date] else params1);
          whereClause2 =
            (if truthy end_date
             then whereClause1 @ '' AND snapshot_time <= $'' @ show_nat (length params2)
             else whereClause1);
          query =
            ''SELECT snapshot_id, room_id, snapshot_time, participants_count, participants_json, is_active FROM room_snapshots WHERE ''
            @ whereClause2
            @ '' ORDER BY snapshot_time DESC LIMIT $'' @ show_nat (length params2 + 1)
            @ '' OFFSET $'' @ show_nat (length params2 + 2);
          params3 = params2 @ [limit, offset];
          countQuery = ''SELECT COUNT(*) as total FROM room_snapshots WHERE '' @ whereClause2
      in ((query, params3), (countQuery, take (length params3 - 2) params3)))"

text \<open>\<^verbatim>\<open>GET /leaderboard/most-active\<close> (lines 674 to 712).\<close>

definition most_active_build :: "jsval \<Rightarrow> jsval \<Rightarrow> jsval \<Rightarrow> string \<times> jsval list" where
  "most_active_build limit by_key days =
     (let params0 = [];
          params1 = (if truthy days then params0 @ [days] else params0);
          dateFilter =
            (if truthy days
             then ''WHERE s.joined_at >= NOW() - INTERVAL '1 day' * $'' @ show_nat (length params1)
             else []);
          orderBy =
            (if by_key = JStr ''time'' then ''total_time_seconds DESC''
             else if by_key = JStr ''rooms'' then ''rooms_visited DESC''
             else ''total_sessions DESC'');
          params2 = params1 @ [limit];
          query =
            ''SELECT u.user_id, u.username, u.user_avatar, u.verification_status, u.supporter_level, u.followers_count, COUNT(DISTINCT s.session_id) as total_sessions, COALESCE(SUM(s.duration_seconds), 0)::BIGINT as total_time_seconds, COUNT(DISTINCT s.room_id) as rooms_visited, MAX(s.joined_at) as last_active, AVG(s.duration_seconds)::INTEGER as avg_session_duration FROM users u JOIN sessions s ON u.user_id = s.user_id ''
            @ dateFilter
            @ '' GROUP BY u.user_id, u.username, u.user_avatar, u.verification_status, u.supporter_level, u.followers_count ORDER BY ''
            @ orderBy @ '' LIMIT $'' @ show_nat (length params2)
      in (query, params2))"

text \<open>\<^verbatim>\<open>GET /rooms/trending\<close> (lines 728 to 771).\<close>

definition trending_build :: "jsval \<Rightarrow> jsval \<Rightarrow> jsval \<Rightarrow> jsval \<Rightarrow> string \<times> jsval list" where
  "trending_build hours limit language skill_level =
     (let whereClause0 = ''s.joined_at >= NOW() - INTERVAL '1 hour' * $1'';
          params0 = [hours];
          params1 = (if truthy language then params0 @ [language] else params0);
          whereClause1 =
            (if truthy language then whereClause0 @ '' AND r.language = $'' @ show_nat (length params1)
             else whereClause0);
          params2 = (if truthy skill_level then params1 @ [skill_level] else params1);
          whereClause2 =
            (if truthy skill_level
             then whereClause1 @ '' AND r.skill_level = $'' @ show_nat (length params2)
             else whereClause1);
          params3 = params2 @ [limit];
          query =
            ''SELECT r.room_id, r.topic, r.language, r.second_language, r.skill_level, r.is_active, r.current_users_count, r.max_capacity, r.is_locked, r.creator_name, r.creator_avatar, r.creator_is_verified, COUNT(DISTINCT s.user_id) as unique_visitors, COUNT(s.session_id) as total_sessions, MAX(s.joined_at) as last_activity FROM rooms r JOIN sessions s ON r.room_id = s.room_id WHERE ''
            @ whereClause2
            @ '' GROUP BY r.room_id, r.topic, r.language, r.second_language, r.skill_level, r.is_active, r.current_users_count, r.max_capacity, r.is_locked, r.creator_name, r.creator_avatar, r.creator_is_verified ORDER BY unique_visitors DESC, total_sessions DESC LIMIT $''
            @ show_nat (length params3)
      in (query, params3))"

text \<open>\<^verbatim>\<open>GET /rooms/active\<close> (lines 787 to 835).\<close>

definition active_build :: "jsval \<Rightarrow> jsval \<Rightarrow> jsval \<Rightarrow> jsval \<Rightarrow> string \<times> jsval list" where
  "active_build language skill_level limit sort_by =
     (let whereClause0 = ''is_active = true'';
          params0 = [];
          params1 = (if truthy language then params0 @ [language] else params0);
          whereClause1 =
            (if truthy language then whereClause0 @ '' AND language = $'' @ show_nat (length params1)
             else whereClause0);
          params2 = (if truthy skill_level then params1 @ [skill_level] else params1);
          whereClause2 =
            (if truthy skill_level
             then whereClause1 @ '' AND skill_level = $'' @ show_nat (length params2)
             else whereClause1);
          orderBy =
            (if sort_by = JStr ''recent'' then ''last_activity DESC''
             else if sort_by = JStr ''popular'' then ''current_users_count DESC, last_activity DESC''
             else ''current_users_count DESC'');
          params3 = params2 @ [limit];
          query =
            ''SELECT room_id, topic, language, second_language, skill_level, current_users_count, max_capacity, is_full, is_empty, is_locked, mic_allowed, mic_required, no_mic, creator_name, creator_avatar, creator_is_verified, last_activity, allows_unlimited FROM rooms WHERE ''
            @ whereClause2 @ '' ORDER BY '' @ orderBy @ '' LIMIT $'' @ show_nat (length params3)
      in (query, params3))"

text \<open>\<^verbatim>\<open>s.replace(pattern, replacement)\<close> with a text pattern: the first occurrence is replaced.\<close>

fun replace_first :: "string \<Rightarrow> string \<Rightarrow> string \<Rightarrow> string" where
  "replace_first pat rep [] = (if pat = [] then rep else [])"
| "replace_first pat rep (c # cs) =
     (if take (length pat) (c # cs) = pat then rep @ drop (length pat) (c # cs)
      else c # replace_first pat rep cs)"

text \<open>\<^verbatim>\<open>GET /stats/languages\<close> (lines 926 to 948).\<close>

definition language_stats_build :: "jsval \<Rightarrow> string \<times> jsval list" where
  "language_stats_build days =
     (let params0 = [];
          params1 = (if truthy days then params0 @ [days] else params0);
          dateFilter =
            (if truthy days
             then ''WHERE s.joined_at >= NOW() - INTERVAL '1 day' * $'' @ show_nat (length params1)
             else []);
          query =
            ''SELECT r.language, COUNT(DISTINCT r.room_id) as room_count, COUNT(DISTINCT s.user_id) as unique_users, COUNT(s.session_id) as total_sessions, COALESCE(SUM(s.duration_seconds), 0)::BIGINT as total_time_seconds, AVG(s.duration_seconds)::INTEGER as avg_session_duration FROM rooms r LEFT JOIN sessions s ON r.room_id = s.room_id ''
            @ replace_first ''WHERE'' ''AND'' dateFilter
            @ '' GROUP BY r.language ORDER BY unique_users DESC, total_sessions DESC''
      in (query, params1))"

text \<open>
  The positional placeholders of a statement text, in the order of their occurrence: each
  \<^verbatim>\<open>$\<close> followed by decimal digits.
\<close>

datatype scan = Idle | Dollar | Digits nat

fun placeholders_from :: "scan \<Rightarrow> string \<Rightarrow> nat list" where
  "placeholders_from Idle [] = []"
| "placeholders_from Dollar [] = []"
| "placeholders_from (Digits n) [] = [n]"
| "placeholders_from Idle (c # cs) =
     (if c = CHR ''$'' then placeholders_from Dollar cs else placeholders_from Idle cs)"
| "placeholders_from Dollar (c # cs) =
     (case radix_val 10 c of
        Some d \<Rightarrow> placeholders_from (Digits d) cs
      | None \<Rightarrow> if c = CHR ''$'' then placeholders_from Dollar cs else placeholders_from Idle cs)"
| "placeholders_from (Digits n) (c # cs) =
     (case radix_val 10 c of
        Some d \<Rightarrow> placeholders_from (Digits (10 * n + d)) cs
      | None \<Rightarrow>
          n # (if c = CHR ''$'' then placeholders_from Dollar cs else placeholders_from Idle cs))"

definition placeholders :: "string \<Rightarrow> nat list" where
  "placeholders sql = placeholders_from Idle sql"

section \<open>The application\<close>

text \<open>
  The handlers modelled in full, by endpoint, and a request served end to end: routed, then
  handled with the path parameters the route bound. \<open>None\<close>: no route matches, or the
  route's handler is one of those not modelled here.
\<close>

definition handler :: "endpoint \<Rightarrow> (request \<Rightarrow> state \<Rightarrow> response \<times> state) option" where
  "handler e =
     (case e of
        UsersSearch \<Rightarrow> Some get_users_search
      | UserProfile \<Rightarrow> Some get_user_profile
      | UserRooms \<Rightarrow> Some get_user_rooms
      | RoomDetails \<Rightarrow> Some get_room
      | SharedRooms \<Rightarrow> Some get_shared_rooms
      | SearchRooms \<Rightarrow> Some get_rooms_search
      | RecordView \<Rightarrow> Some post_user_view
      | _ \<Rightarrow> None)"

definition serve :: "verb \<Rightarrow> string \<Rightarrow> request \<Rightarrow> state \<Rightarrow> (response \<times> state) option" where
  "serve m path req st =
     (case dispatch m path of
        None \<Rightarrow> None
      | Some (e, params) \<Rightarrow>
          (case handler e of
             None \<Rightarrow> None
           | Some h \<Rightarrow> Some (h (req\<lparr>req_params := params\<rparr>) st)))"

section \<open>Reading a response, and example data\<close>

definition response_status :: "response \<Rightarrow> nat" where
  "response_status resp = (case resp of Response code body \<Rightarrow> code)"

text \<open>The property \<open>k\<close> of the \<^verbatim>\<open>statistics\<close> object of a response body.\<close>

definition statistics_field :: "response \<Rightarrow> string \<Rightarrow> jsval" where
  "statistics_field resp k =
     (case resp of
        Response code (JObj body) \<Rightarrow>
          (case js_get body ''statistics'' of
             JObj stats \<Rightarrow> js_get stats k
           | _ \<Rightarrow> JUndef)
      | _ \<Rightarrow> JUndef)"

text \<open>The rows under the property \<open>k\<close> of a response body, and a property of a row.\<close>

definition response_rows :: "response \<Rightarrow> string \<Rightarrow> jsval list" where
  "response_rows resp k =
     (case resp of
        Response code (JObj body) \<Rightarrow> (case js_get body k of JArr rows \<Rightarrow> rows | _ \<Rightarrow> [])
      | _ \<Rightarrow> [])"

definition row_field :: "jsval \<Rightarrow> string \<Rightarrow> jsval" where
  "row_field row k = (case row of JObj obj \<Rightarrow> js_get obj k | _ \<Rightarrow> JUndef)"

text \<open>
  The numeric properties of the profile response: those the handler overwrites after the
  spread of the user row (lines 154 to 160), and those of its statistics block (lines 163 to
  166).
\<close>

definition profile_metric_names :: "string list" where
  "profile_metric_names =
     [''followers_count'', ''following_count'', ''friends_count'', ''supporter_level'',
      ''profile_views_count'', ''total_sessions'', ''total_duration_seconds'']"

definition profile_statistic_names :: "string list" where
  "profile_statistic_names =
     [''total_rooms_visited'', ''total_sessions'', ''total_duration_seconds'',
      ''avg_session_duration'']"

definition plain_request :: "(string \<times> string) list \<Rightarrow> (string \<times> jsval) list \<Rightarrow> request" where
  "plain_request params query =
     \<lparr>req_params = params, req_query = query, req_ip = None, req_remoteAddress = None,
      req_user_agent = None\<rparr>"

definition plain_room :: "string \<Rightarrow> bool option \<Rightarrow> room" where
  "plain_room roomId active =
     \<lparr>r_room_id = roomId, r_topic = None, r_language = None, r_second_language = JNull,
      r_skill_level = None, r_max_capacity = JNull, r_is_locked = JNull, r_creator_name = JNull,
      r_is_active = active, r_current_users_count = None, r_first_seen = JNull,
      r_last_activity = None, r_other = []\<rparr>"

text \<open>A storage that never fails and has no uniqueness policy, with nothing dispatched yet.\<close>

definition plain_state :: "user list \<Rightarrow> room list \<Rightarrow> session list \<Rightarrow> int \<Rightarrow> state" where
  "plain_state us rs ss now =
     \<lparr>db_users = us, db_rooms = rs, db_sessions = ss, db_profile_views = [], db_now = now,
      db_conflict = (\<lambda>row rows. False), db_fault = (\<lambda>k. None), db_log = [], console = []\<rparr>"

text \<open>A room with one user present, first marked inactive, then active.\<close>

definition closed_room_state :: state where
  "closed_room_state =
     plain_state [] [plain_room ''r1'' (Some False)]
       [\<lparr>s_session_id = ''s1'', s_user_id = ''A'', s_room_id = ''r1'', s_joined_at = 600,
         s_left_at = None, s_duration_seconds = None, s_is_currently_active = True\<rparr>] 700"

definition open_room_state :: state where
  "open_room_state =
     plain_state [] [plain_room ''r1'' (Some True)]
       [\<lparr>s_session_id = ''s1'', s_user_id = ''A'', s_room_id = ''r1'', s_joined_at = 600,
         s_left_at = None, s_duration_seconds = None, s_is_currently_active = True\<rparr>] 700"

text \<open>A user whose pass-through columns are all NULL.\<close>

definition plain_user :: "string \<Rightarrow> string \<Rightarrow> int option \<Rightarrow> int option \<Rightarrow> user" where
  "plain_user uid name followers sessions =
     \<lparr>u_user_id = uid, u_username = name, u_user_avatar = JNull, u_followers_count = followers,
      u_following_count = JNull, u_friends_count = JNull, u_supporter_level = JNull,
      u_verification_status = JNull, u_first_seen = JNull, u_last_seen = JNull,
      u_profile_views_count = JNull, u_total_sessions = sessions,
      u_total_duration_seconds = JNull, u_created_at = JNull, u_updated_at = JNull\<rparr>"

text \<open>One user, with identity \<^verbatim>\<open>u1\<close> and name \<^verbatim>\<open>Alice\<close>, and no sessions.\<close>

definition lone_user_state :: state where
  "lone_user_state = plain_state [plain_user ''u1'' ''Alice'' None None] [] [] 0"

section \<open>The search order in the words of the specification\<close>

text \<open>
  The tiers as the specification words them, on texts: the username equals the query, letter
  case ignored; else the query is a prefix of the username; else anything that matched. These
  definitions take the query as plain text, not as a \<^verbatim>\<open>LIKE\<close> pattern.
\<close>

definition is_prefix :: "string \<Rightarrow> string \<Rightarrow> bool" where
  "is_prefix p s = (take (length p) s = p)"

definition is_substring :: "string \<Rightarrow> string \<Rightarrow> bool" where
  "is_substring p s = list_ex (\<lambda>n. is_prefix p (drop n s)) [0..<Suc (length s)]"

definition spec_search_tier :: "string \<Rightarrow> user \<Rightarrow> nat" where
  "spec_search_tier q u =
     (if lower (u_username u) = lower q then 1
      else if is_prefix (lower q) (lower (u_username u)) then 2
      else 3)"

definition spec_search_key :: "string \<Rightarrow> user \<Rightarrow> nat \<times> (nat \<times> int) \<times> (nat \<times> int)" where
  "spec_search_key q u =
     (spec_search_tier q u,
      desc_nulls_last (u_followers_count u),
      desc_nulls_last (u_total_sessions u))"

text \<open>A query without the characters that \<^verbatim>\<open>LIKE\<close> reads as wildcards or as the escape.\<close>

definition no_wildcards :: "string \<Rightarrow> bool" where
  "no_wildcards q = list_all (\<lambda>c. c \<noteq> CHR ''%'' \<and> c \<noteq> CHR ''_'' \<and> c \<noteq> CHR 0x5C) q"

text \<open>The rows of a response whose body is an array.\<close>

definition response_list :: "response \<Rightarrow> jsval list" where
  "response_list resp = (case resp of Response code (JArr rows) \<Rightarrow> rows | _ \<Rightarrow> [])"

text \<open>The users of the scenario, the one with more followers stored first.\<close>

definition alice_state :: state where
  "alice_state =
     plain_state [plain_user ''u2'' ''alice99'' (Some 500) None,
                  plain_user ''u1'' ''alice'' (Some 100) None] [] [] 0"

text \<open>Two users for the query \<^verbatim>\<open>a_\<close>: one whose name contains it, one whose name matches it as a pattern.\<close>

definition underscore_state :: state where
  "underscore_state =
     plain_state [plain_user ''u1'' ''xa_'' (Some 100) None,
                  plain_user ''u2'' ''ab'' (Some 0) None] [] [] 0"

section \<open>Overlap in the words of the specification\<close>

text \<open>
  The pairs the specification counts: one session of each user in the room, the two
  intersecting.
\<close>

definition spec_overlapping_pairs :: "string \<Rightarrow> string \<Rightarrow> string \<Rightarrow> state \<Rightarrow> (session \<times> session) list" where
  "spec_overlapping_pairs user1Id user2Id roomId st =
     concat (map (\<lambda>s1.
       map (\<lambda>s2. (s1, s2))
         (filter (\<lambda>s2. s_user_id s2 = user2Id \<and> s_room_id s2 = roomId \<and> overlaps (db_now st) s1 s2)
            (db_sessions st)))
       (filter (\<lambda>s1. s_user_id s1 = user1Id \<and> s_room_id s1 = roomId) (db_sessions st)))"

text \<open>
  What the two directions of a comparison can share: the room, the two session counts (read
  as they are, or exchanged), and the two overlap times.
\<close>

definition shared_view ::
  "shared_row \<Rightarrow> (string \<times> string option \<times> string option \<times> string option \<times> bool option)
     \<times> nat \<times> nat \<times> int option \<times> int option" where
  "shared_view row =
     ((sh_room_id row, sh_language row, sh_topic row, sh_skill_level row, sh_is_active row),
      user1_sessions row, user2_sessions row, first_overlap_time row, last_overlap_time row)"

definition shared_view_swapped ::
  "shared_row \<Rightarrow> (string \<times> string option \<times> string option \<times> string option \<times> bool option)
     \<times> nat \<times> nat \<times> int option \<times> int option" where
  "shared_view_swapped row =
     ((sh_room_id row, sh_language row, sh_topic row, sh_skill_level row, sh_is_active row),
      user2_sessions row, user1_sessions row, first_overlap_time row, last_overlap_time row)"

text \<open>A row of the join with the two sessions exchanged.\<close>

definition exchange :: "room \<times> session \<times> session \<Rightarrow> room \<times> session \<times> session" where
  "exchange j = (case j of (r, s1, s2) \<Rightarrow> (r, s2, s1))"

definition closed_session :: "string \<Rightarrow> string \<Rightarrow> string \<Rightarrow> int \<Rightarrow> int \<Rightarrow> session" where
  "closed_session sid uid roomId joined left =
     \<lparr>s_session_id = sid, s_user_id = uid, s_room_id = roomId, s_joined_at = joined,
      s_left_at = Some left, s_duration_seconds = Some (left - joined),
      s_is_currently_active = False\<rparr>"

text \<open>
  The scenario, in seconds of the day: in room \<^verbatim>\<open>R\<close>, user \<^verbatim>\<open>A\<close> from 10:00 to 10:30 and
  user \<^verbatim>\<open>B\<close> from 10:15 to 10:45.
\<close>

definition scenario_state :: state where
  "scenario_state =
     plain_state [] [plain_room ''R'' (Some True)]
       [closed_session ''a1'' ''A'' ''R'' 36000 37800,
        closed_session ''b1'' ''B'' ''R'' 36900 38700] 40000"

text \<open>One long session of \<^verbatim>\<open>A\<close> that intersects two short sessions of \<^verbatim>\<open>B\<close>.\<close>

definition two_visits_state :: state where
  "two_visits_state =
     plain_state [] [plain_room ''R'' (Some True)]
       [closed_session ''a1'' ''A'' ''R'' 0 100,
        closed_session ''b1'' ''B'' ''R'' 10 20,
        closed_session ''b2'' ''B'' ''R'' 30 40] 1000"

section \<open>Decimal text and objects\<close>

lemma digit_char_val: "d < 10 \<Longrightarrow> radix_val 10 (digit_char d) = Some d"
proof -
  assume "d < 10"
  then consider "d = 0" | "d = 1" | "d = 2" | "d = 3" | "d = 4"
    | "d = 5" | "d = 6" | "d = 7" | "d = 8" | "d = 9"
    by (auto simp: less_Suc_eq numeral_eq_Suc)
  then show ?thesis
    by cases (simp_all add: radix_val_def hex_val_def digit_char_def)
qed

text \<open>Reading back the decimal text of a number gives the number.\<close>

lemma read_digits_show_nat:
  "read_digits 10 acc (show_nat n @ rest) =
     read_digits 10 (Some ((case acc of None \<Rightarrow> 0 | Some m \<Rightarrow> m) * 10 ^ length (show_nat n) + n)) rest"
proof (induction n arbitrary: acc rest rule: show_nat.induct)
  case (1 n)
  show ?case
  proof (cases "n < 10")
    case True
    then show ?thesis by (simp add: show_nat.simps[of n] digit_char_val mult.commute)
  next
    case False
    then have "show_nat n = show_nat (n div 10) @ [digit_char (n mod 10)]"
      by (simp add: show_nat.simps[of n])
    then show ?thesis
      using 1[OF False, of acc "digit_char (n mod 10) # rest"]
      by (simp add: digit_char_val algebra_simps)
  qed
qed

lemma read_digits_show_nat_all: "read_digits 10 None (show_nat n) = Some n"
  using read_digits_show_nat[of None n "[]"] by simp

lemma show_nat_digits: "set (show_nat n) \<subseteq> set ''0123456789''"
proof (induction n rule: show_nat.induct)
  case (1 n)
  have d: "\<And>k. k < 10 \<Longrightarrow> digit_char k \<in> set ''0123456789''"
    unfolding digit_char_def by (rule nth_mem) simp
  show ?case
  proof (cases "n < 10")
    case True
    then show ?thesis using d[of n] by (simp add: show_nat.simps[of n])
  next
    case False
    then have "show_nat n = show_nat (n div 10) @ [digit_char (n mod 10)]"
      by (simp add: show_nat.simps[of n])
    then show ?thesis using 1[OF False] d[of "n mod 10"] by simp
  qed
qed

lemma show_nat_not_empty: "show_nat n \<noteq> []"
  by (subst show_nat.simps) simp

lemma parseInt_string_show_nat: "parseInt_string (show_nat n) = Some (int n)"
proof -
  obtain c cs where s: "show_nat n = c # cs"
    using show_nat_not_empty[of n] by (cases "show_nat n") auto
  have cd: "c \<in> set ''0123456789''" using show_nat_digits[of n] s by auto
  then have c1: "\<not> is_space c" "c \<noteq> CHR ''-''" "c \<noteq> CHR ''+''"
    by (auto simp: is_space_def)
  have "parse_unsigned (c # cs) = read_digits 10 None (c # cs)"
  proof (cases cs)
    case Nil
    then show ?thesis by (simp add: parse_unsigned_def)
  next
    case (Cons b bs)
    then have "b \<in> set ''0123456789''" using show_nat_digits[of n] s by auto
    then have "b \<noteq> CHR ''x''" "b \<noteq> CHR ''X''" by auto
    then show ?thesis using Cons by (simp add: parse_unsigned_def)
  qed
  then have "parse_unsigned (c # cs) = Some n"
    using read_digits_show_nat_all[of n] s by simp
  then show ?thesis using c1 s by (simp add: parseInt_string_def)
qed

text \<open>\<^verbatim>\<open>parseInt\<close> of a count as the driver delivers it is the count.\<close>

lemma parseInt_count: "parseInt (js_count n) = JNum (int n)"
  by (simp add: parseInt_def js_count_def parseInt_string_show_nat)

lemma js_get_js_set: "js_get (js_set k v obj) k = v"
  by (simp add: js_get_def js_set_def update_conv')

lemma js_get_js_set_other: "k' \<noteq> k \<Longrightarrow> js_get (js_set k v obj) k' = js_get obj k'"
  by (simp add: js_get_def js_set_def update_conv')

lemma path_param_plain [simp]: "path_param (plain_request [(k, v)] query) k = v"
  by (simp add: path_param_def plain_request_def)

lemma show_nat_small:
  "show_nat 0 = ''0''" "show_nat 1 = ''1''" "show_nat (Suc 0) = ''1''" "show_nat 2 = ''2''"
  by (simp_all add: show_nat.simps digit_char_def)

lemma user_stats_run_log [simp]: "user_stats_run uid (st\<lparr>db_log := l\<rparr>) = user_stats_run uid st"
  by (simp add: user_stats_run_def)

lemma fav_lang_run_log [simp]: "fav_lang_run uid (st\<lparr>db_log := l\<rparr>) = fav_lang_run uid st"
  by (simp add: fav_lang_run_def)

lemma user_run_log [simp]: "user_run p (st\<lparr>db_log := l\<rparr>) = user_run p st"
  by (simp add: user_run_def)

lemma user_stats_one_row: "\<exists>stats. user_stats_run uid st = Inr [stats]"
  by (simp add: user_stats_run_def Let_def)

lemma fav_lang_rows: "\<exists>rows. fav_lang_run uid st = Inr rows"
  by (simp add: fav_lang_run_def Let_def)

lemma recordProfileView_returns: "fst (recordProfileView userId req st) = Inr ()"
  by (simp add: recordProfileView_def recordProfileView_try_def pool_insert_profile_view_def
      Let_def split: option.splits)

lemma recordProfileView_log:
  "db_log (snd (recordProfileView userId req st)) =
     db_log st @ [(insert_profile_view_sql,
       [JStr userId,
        JStr (take 50 (text_or (req_ip req) (text_or (req_remoteAddress req) ''unknown''))),
        JStr (take 255 (text_or (req_user_agent req) ''Unknown''))])]"
  by (simp add: recordProfileView_def recordProfileView_try_def pool_insert_profile_view_def
      Let_def split: option.splits)

lemma awaited_view:
  "(case recordProfileView uid req s of
      (Inl msg, st4) \<Rightarrow> (get_user_failed msg, st4)
    | (Inr done, st4) \<Rightarrow> (b, st4))
   = (b, snd (recordProfileView uid req s))"
  using recordProfileView_returns[of uid req s]
  by (simp add: split_beta split: sum.splits)

lemma user_row_user_id: "js_get (user_row u) ''user_id'' = JStr (u_user_id u)"
  by (simp add: user_row_def js_get_def)

text \<open>
  The profile handler on a user that the lookup finds, with a storage that answers: the
  response and the statements it dispatches.
\<close>

lemma get_user_profile_found:
  assumes rows: "filter (user_where (path_param req ''userId'')) (db_users st) = u # us"
    and nofault: "\<forall>k. db_fault st k = None"
    and stats: "user_stats_run (u_user_id u) st = Inr [stats]"
    and fav: "fav_lang_run (u_user_id u) st = Inr favRows"
  shows "fst (get_user_profile req st) =
           Response 200 (JObj (profile_body (user_row u) stats (favorite_of favRows)))"
    and "db_log (snd (get_user_profile req st)) =
           db_log st
           @ [(user_sql, [JStr (path_param req ''userId'')]),
              (user_stats_sql, [JStr (u_user_id u)]),
              (fav_lang_sql, [JStr (u_user_id u)])]
           @ (if query_default req ''record_view'' (JStr ''false'') = JStr ''true''
              then [(insert_profile_view_sql,
                      [JStr (u_user_id u),
                       JStr (take 50 (text_or (req_ip req) (text_or (req_remoteAddress req) ''unknown''))),
                       JStr (take 255 (text_or (req_user_agent req) ''Unknown''))])]
              else [])"
proof -
  let ?st3 = "st\<lparr>db_log := db_log st @ [(user_sql, [JStr (path_param req ''userId'')]),
              (user_stats_sql, [JStr (u_user_id u)]),
              (fav_lang_sql, [JStr (u_user_id u)])]\<rparr>"
  let ?resp = "Response 200 (JObj (profile_body (user_row u) stats (favorite_of favRows)))"
  have eq: "get_user_profile req st =
      (if query_default req ''record_view'' (JStr ''false'') = JStr ''true''
       then (?resp, snd (recordProfileView (u_user_id u) req ?st3))
       else (?resp, ?st3))"
    using rows nofault stats fav
    by (simp add: get_user_profile_def pool_query_def user_run_def Let_def user_row_user_id
        first_row_def awaited_view)
  show "fst (get_user_profile req st) = ?resp"
    by (simp add: eq)
  show "db_log (snd (get_user_profile req st)) =
           db_log st
           @ [(user_sql, [JStr (path_param req ''userId'')]),
              (user_stats_sql, [JStr (u_user_id u)]),
              (fav_lang_sql, [JStr (u_user_id u)])]
           @ (if query_default req ''record_view'' (JStr ''false'') = JStr ''true''
              then [(insert_profile_view_sql,
                      [JStr (u_user_id u),
                       JStr (take 50 (text_or (req_ip req) (text_or (req_remoteAddress req) ''unknown''))),
                       JStr (take 255 (text_or (req_user_agent req) ''Unknown''))])]
              else [])"
    by (simp add: eq recordProfileView_log)
qed

lemma lone_user_lookup:
  "filter (user_where (path_param (plain_request [(''userId'', ''alice'')] query) ''userId''))
     (db_users lone_user_state) = plain_user ''u1'' ''Alice'' None None # []"
  by (simp add: lone_user_state_def plain_state_def user_where_def plain_user_def
      lower_def lower_char_def)

lemma lone_user_no_fault: "\<forall>k. db_fault lone_user_state k = None"
  by (simp add: lone_user_state_def plain_state_def)

section \<open>Shared rooms: the join, the groups and the aggregates\<close>

lemma shared_join_mem:
  "(r, s1, s2) \<in> set (shared_join user1Id user2Id st) \<longleftrightarrow>
     r \<in> set (db_rooms st) \<and> s1 \<in> set (db_sessions st) \<and> s2 \<in> set (db_sessions st)
        \<and> r_room_id r = s_room_id s1 \<and> s_user_id s1 = user1Id
        \<and> r_room_id r = s_room_id s2 \<and> s_user_id s2 = user2Id"
  unfolding shared_join_def by (simp add: image_iff) auto

lemma count_distinct_card: "count_distinct xs = card (set xs)"
  by (simp add: count_distinct_def length_remdups_card_conv)

lemma sql_max_set: "sql_max xs = (if xs = [] then None else Some (Max (set xs)))"
proof (cases xs)
  case Nil
  then show ?thesis by (simp add: sql_max_def)
next
  case (Cons a list)
  then show ?thesis using Max.set_eq_fold[of a list] by (simp add: sql_max_def)
qed

lemma sql_min_set: "sql_min xs = (if xs = [] then None else Some (Min (set xs)))"
proof (cases xs)
  case Nil
  then show ?thesis by (simp add: sql_min_def)
next
  case (Cons a list)
  then show ?thesis using Min.set_eq_fold[of a list] by (simp add: sql_min_def)
qed

lemma group_by_set:
  "set (group_by key rows) = (\<lambda>k. (k, filter (\<lambda>x. key x = k) rows)) ` key ` set rows"
  by (auto simp: group_by_def)

lemma shared_groups_set:
  "set (shared_groups user1Id user2Id st) =
     (\<lambda>k. shared_row_of (db_now st)
             (k, filter (\<lambda>j. shared_key j = k) (shared_join user1Id user2Id st)))
       ` shared_key ` set (shared_join user1Id user2Id st)"
  by (simp add: shared_groups_def group_by_set image_image)

lemma shared_rooms_rows_set:
  "set (shared_rooms_rows user1Id user2Id m st) =
     {row \<in> set (shared_groups user1Id user2Id st). m \<le> int (overlap_count row)}"
  by (auto simp: shared_rooms_rows_def)

lemmas shared_eval = shared_rooms_rows_def shared_groups_def shared_join_def group_by_def
  shared_key_def shared_row_of_def overlaps_def coalesce_def count_distinct_def sql_max_def
  sql_min_def desc_nulls_first_def closed_session_def plain_room_def plain_state_def
  less_eq_prod_def less_prod_def

lemma shared_row_js_fields:
  "row_field (shared_row_js row) ''overlap_count'' = JStr (show_nat (overlap_count row))"
  "row_field (shared_row_js row) ''last_overlap_time'' = js_timestamp (last_overlap_time row)"
  "row_field (shared_row_js row) ''room_id'' = JStr (sh_room_id row)"
  by (simp_all add: shared_row_js_def row_field_def js_get_def js_count_def)

lemma get_shared_rooms_plain:
  "fst (get_shared_rooms (plain_request [(''user1Id'', a), (''user2Id'', b)] [(''min_overlaps'', JNum m)])
          (plain_state us rs ss now)) =
     Response 200 (JArr (map shared_row_js (shared_rooms_rows a b m (plain_state us rs ss now))))"
  by (simp add: get_shared_rooms_def pool_query_def shared_rooms_run_def pg_int_def Let_def
      query_default_def js_get_def path_param_def plain_request_def plain_state_def
      shared_rooms_rows_def shared_groups_def shared_join_def)

section \<open>Placeholders and parameter arrays\<close>

text \<open>The scanner reads the decimal text of \<open>n\<close> after a \<^verbatim>\<open>$\<close> as the number \<open>n\<close>.\<close>

lemma placeholders_dollar_show_nat:
  "placeholders_from Dollar (show_nat n @ rest) = placeholders_from (Digits n) rest"
proof (induction n arbitrary: rest rule: show_nat.induct)
  case (1 n)
  show ?case
  proof (cases "n < 10")
    case True
    then show ?thesis by (simp add: show_nat.simps[of n] digit_char_val)
  next
    case False
    then have "show_nat n = show_nat (n div 10) @ [digit_char (n mod 10)]"
      by (simp add: show_nat.simps[of n])
    then show ?thesis
      using 1[OF False, of "digit_char (n mod 10) # rest"] by (simp add: digit_char_val)
  qed
qed

lemma placeholders_dollar_show_nat_end: "placeholders_from Dollar (show_nat n) = [n]"
  using placeholders_dollar_show_nat[of n "[]"] by simp

lemma radix_val_space: "radix_val 10 (CHR '' '') = None"
  by (simp add: radix_val_def hex_val_def)

lemma radix_val_one: "radix_val 10 (CHR ''1'') = Some 1"
  by (simp add: radix_val_def hex_val_def)

lemmas scan_simps = placeholders_def placeholders_dollar_show_nat placeholders_dollar_show_nat_end
  radix_val_space radix_val_one

lemma user_rooms_placeholders:
  "(case user_rooms_build userId limit offset language skill_level of
      ((query, params), (countQuery, countParams)) \<Rightarrow>
        placeholders query = map Suc [0..<length params]
        \<and> placeholders countQuery = map Suc [0..<length countParams])"
  by (cases "truthy language"; cases "truthy skill_level")
     (simp_all add: user_rooms_build_def scan_simps)

lemma snapshots_placeholders:
  "(case snapshots_build roomId limit offset start_date end_date of
      ((query, params), (countQuery, countParams)) \<Rightarrow>
        placeholders query = map Suc [0..<length params]
        \<and> placeholders countQuery = map Suc [0..<length countParams])"
  by (cases "truthy start_date"; cases "truthy end_date")
     (simp_all add: snapshots_build_def scan_simps)

lemma timeline_placeholders:
  "(case timeline_build roomId limit offset event_type of
      (query, params) \<Rightarrow> placeholders query = map Suc [0..<length params])"
proof (cases "truthy event_type \<and> (event_type = JStr ''join'' \<or> event_type = JStr ''leave'')")
  case True
  then show ?thesis by (simp add: timeline_build_def scan_simps)
next
  case False
  then have f: "(truthy event_type \<and> (event_type = JStr ''join'' \<or> event_type = JStr ''leave'')) = False"
    by simp
  show ?thesis unfolding timeline_build_def f by (simp add: scan_simps)
qed

lemma trending_placeholders:
  "(case trending_build hours limit language skill_level of
      (query, params) \<Rightarrow> placeholders query = map Suc [0..<length params])"
  by (cases "truthy language"; cases "truthy skill_level")
     (simp_all add: trending_build_def scan_simps)

lemma active_placeholders:
  "(case active_build language skill_level limit sort_by of
      (query, params) \<Rightarrow> placeholders query = map Suc [0..<length params])"
  by (cases "truthy language"; cases "truthy skill_level")
     (simp_all add: active_build_def scan_simps)

lemma most_active_placeholders:
  "(case most_active_build limit by_key days of
      (query, params) \<Rightarrow> placeholders query = map Suc [0..<length params])"
  by (cases "truthy days") (simp_all add: most_active_build_def scan_simps)

lemma language_stats_placeholders:
  "(case language_stats_build days of
      (query, params) \<Rightarrow> placeholders query = map Suc [0..<length params])"
  by (cases "truthy days") (simp_all add: language_stats_build_def scan_simps)

text \<open>
  C1. For every combination of present and absent filters, the placeholders of each assembled
  statement, read in the order they occur in the text, are exactly \<open>1, 2, ..., n\<close> for the
  \<open>n\<close> entries of the parameter array passed with it: as many placeholders as parameters, no
  gap and no number used twice. This holds for the room history of a user and the room
  snapshots, each with its count query and the shortened array, and for the timeline,
  trending, active, most-active and language statistics statements.
\<close>

theorem placeholders_match_parameters:
  "(case user_rooms_build userId limit offset language skill_level of
      ((query, params), (countQuery, countParams)) \<Rightarrow>
        placeholders query = map Suc [0..<length params]
        \<and> placeholders countQuery = map Suc [0..<length countParams])
   \<and> (case snapshots_build roomId limit offset start_date end_date of
      ((query, params), (countQuery, countParams)) \<Rightarrow>
        placeholders query = map Suc [0..<length params]
        \<and> placeholders countQuery = map Suc [0..<length countParams])
   \<and> (case timeline_build roomId limit offset event_type of
      (query, params) \<Rightarrow> placeholders query = map Suc [0..<length params])
   \<and> (case trending_build hours limit language skill_level of
      (query, params) \<Rightarrow> placeholders query = map Suc [0..<length params])
   \<and> (case active_build language skill_level limit sort_by of
      (query, params) \<Rightarrow> placeholders query = map Suc [0..<length params])
   \<and> (case most_active_build limit by_key days of
      (query, params) \<Rightarrow> placeholders query = map Suc [0..<length params])
   \<and> (case language_stats_build days of
      (query, params) \<Rightarrow> placeholders query = map Suc [0..<length params])"
proof -
  note user_rooms_placeholders [of userId limit offset language skill_level]
  moreover note snapshots_placeholders [of roomId limit offset start_date end_date]
  moreover note timeline_placeholders [of roomId limit offset event_type]
  moreover note trending_placeholders [of hours limit language skill_level]
  moreover note active_placeholders [of language skill_level limit sort_by]
  moreover note most_active_placeholders [of limit by_key days]
  moreover note language_stats_placeholders [of days]
  ultimately show ?thesis by blast
qed

section \<open>The overlap count of shared rooms\<close>

text \<open>
  C2, as amended. For every room in the result of a comparison, \<^verbatim>\<open>overlap_count\<close> is the
  number of sessions of the first user in that room that intersect at least one session of
  the second user there (the query counts \<^verbatim>\<open>DISTINCT s1.session_id\<close>), under the test
  \<^verbatim>\<open>s1.joined_at <= COALESCE(s2.left_at, NOW()) AND s2.joined_at <= COALESCE(s1.left_at, NOW())\<close>,
  and it is at least the threshold. With one session each the two readings agree, as in the
  scenario.
\<close>

theorem overlap_count_is_first_users_sessions:
  assumes "row \<in> set (shared_rooms_rows user1Id user2Id m st)"
  shows "overlap_count row =
           card (s_session_id `
             {s1 \<in> set (db_sessions st).
                s_user_id s1 = user1Id \<and> s_room_id s1 = sh_room_id row
                \<and> (\<exists>s2 \<in> set (db_sessions st).
                      s_user_id s2 = user2Id \<and> s_room_id s2 = sh_room_id row
                      \<and> overlaps (db_now st) s1 s2)})
         \<and> m \<le> int (overlap_count row)"
proof -
  let ?J = "shared_join user1Id user2Id st"
  from assms have g: "row \<in> set (shared_groups user1Id user2Id st)"
    and m: "m \<le> int (overlap_count row)"
    by (simp_all add: shared_rooms_rows_set)
  from g obtain j0 where j0: "j0 \<in> set ?J"
    and row: "row = shared_row_of (db_now st)
                (shared_key j0, filter (\<lambda>j. shared_key j = shared_key j0) ?J)"
    by (auto simp: shared_groups_set)
  obtain r0 a0 b0 where j0_eq: "j0 = (r0, a0, b0)" by (cases j0)
  let ?G = "filter (\<lambda>j. shared_key j = shared_key j0) ?J"
  have r0: "r0 \<in> set (db_rooms st)" using j0 by (simp add: j0_eq shared_join_mem)
  have rid: "sh_room_id row = r_room_id r0"
    by (simp add: row j0_eq shared_row_of_def shared_key_def)
  have "overlap_count row =
      count_distinct (map (\<lambda>(r, s1, s2). s_session_id s1)
                        (filter (\<lambda>(r, s1, s2). overlaps (db_now st) s1 s2) ?G))"
    by (simp add: row j0_eq shared_row_of_def shared_key_def)
  then have oc: "overlap_count row =
      card ((\<lambda>(r, s1, s2). s_session_id s1) `
              set (filter (\<lambda>(r, s1, s2). overlaps (db_now st) s1 s2) ?G))"
    by (simp add: count_distinct_card)
  have "(\<lambda>(r, s1, s2). s_session_id s1) `
              set (filter (\<lambda>(r, s1, s2). overlaps (db_now st) s1 s2) ?G)
        = s_session_id `
             {s1 \<in> set (db_sessions st).
                s_user_id s1 = user1Id \<and> s_room_id s1 = sh_room_id row
                \<and> (\<exists>s2 \<in> set (db_sessions st).
                      s_user_id s2 = user2Id \<and> s_room_id s2 = sh_room_id row
                      \<and> overlaps (db_now st) s1 s2)}" (is "?L = ?R")
  proof
    show "?L \<subseteq> ?R"
    proof
      fix x assume "x \<in> ?L"
      then obtain r s1 s2 where j: "(r, s1, s2) \<in> set ?J" "shared_key (r, s1, s2) = shared_key j0"
        "overlaps (db_now st) s1 s2" and x: "x = s_session_id s1"
        by auto
      from j(2) have "r_room_id r = r_room_id r0" by (simp add: shared_key_def j0_eq)
      with j(1) j(3) have "s1 \<in> set (db_sessions st)" "s_user_id s1 = user1Id"
        "s_room_id s1 = sh_room_id row" "s2 \<in> set (db_sessions st)" "s_user_id s2 = user2Id"
        "s_room_id s2 = sh_room_id row"
        by (auto simp: shared_join_mem rid)
      with j(3) x show "x \<in> ?R" by blast
    qed
    show "?R \<subseteq> ?L"
    proof
      fix x assume "x \<in> ?R"
      then obtain s1 s2 where s: "s1 \<in> set (db_sessions st)" "s_user_id s1 = user1Id"
        "s_room_id s1 = sh_room_id row" "s2 \<in> set (db_sessions st)" "s_user_id s2 = user2Id"
        "s_room_id s2 = sh_room_id row" "overlaps (db_now st) s1 s2" and x: "x = s_session_id s1"
        by auto
      have "(r0, s1, s2) \<in> set ?J" using s r0 by (simp add: shared_join_mem rid)
      moreover have "shared_key (r0, s1, s2) = shared_key j0" by (simp add: shared_key_def j0_eq)
      ultimately have "(r0, s1, s2) \<in> set (filter (\<lambda>(r, s1, s2). overlaps (db_now st) s1 s2) ?G)"
        using s(7) by simp
      then show "x \<in> ?L" using x by (metis (mono_tags, lifting) case_prod_conv image_eqI)
    qed
  qed
  with oc m show ?thesis by simp
qed


lemma scenario_rows:
  "shared_rooms_rows ''A'' ''B'' 1 scenario_state =
     [\<lparr>sh_room_id = ''R'', sh_language = None, sh_topic = None, sh_skill_level = None,
       sh_is_active = Some True, user1_sessions = 1, user2_sessions = 1, overlap_count = 1,
       last_overlap_time = Some 37800, first_overlap_time = Some 36900\<rparr>]"
  by (simp add: scenario_state_def shared_eval)

text \<open>
  The scenario: one session each, 10:00 to 10:30 and 10:15 to 10:45; the endpoint reports
  \<^verbatim>\<open>overlap_count\<close> 1 and \<^verbatim>\<open>last_overlap_time\<close> 10:30.
\<close>

theorem overlap_count_witness:
  "map (\<lambda>row. (row_field row ''overlap_count'', row_field row ''last_overlap_time''))
     (response_list (fst (get_shared_rooms
        (plain_request [(''user1Id'', ''A''), (''user2Id'', ''B'')] [(''min_overlaps'', JNum 1)])
        scenario_state)))
     = [(JStr ''1'', JDate 37800)]
   \<and> card (s_session_id `
         {s1 \<in> set (db_sessions scenario_state).
            s_user_id s1 = ''A'' \<and> s_room_id s1 = ''R''
            \<and> (\<exists>s2 \<in> set (db_sessions scenario_state).
                  s_user_id s2 = ''B'' \<and> s_room_id s2 = ''R''
                  \<and> overlaps (db_now scenario_state) s1 s2)}) = 1"
proof -
  let ?row = "\<lparr>sh_room_id = ''R'', sh_language = None, sh_topic = None, sh_skill_level = None,
       sh_is_active = Some True, user1_sessions = 1, user2_sessions = 1, overlap_count = 1,
       last_overlap_time = Some 37800, first_overlap_time = Some 36900\<rparr>"
  have mem: "?row \<in> set (shared_rooms_rows ''A'' ''B'' 1 scenario_state)"
    by (simp add: scenario_rows)
  have resp: "fst (get_shared_rooms
        (plain_request [(''user1Id'', ''A''), (''user2Id'', ''B'')] [(''min_overlaps'', JNum 1)])
        scenario_state) = Response 200 (JArr (map shared_row_js [?row]))"
    unfolding scenario_rows[symmetric] scenario_state_def by (rule get_shared_rooms_plain)
  have first: "map (\<lambda>row. (row_field row ''overlap_count'', row_field row ''last_overlap_time''))
     (response_list (fst (get_shared_rooms
        (plain_request [(''user1Id'', ''A''), (''user2Id'', ''B'')] [(''min_overlaps'', JNum 1)])
        scenario_state))) = [(JStr ''1'', JDate 37800)]"
    by (simp add: resp response_list_def shared_row_js_fields show_nat_small js_timestamp_def)
  from overlap_count_is_first_users_sessions[OF mem] first show ?thesis by simp
qed

text \<open>
  The claim as stated fails when one session of the first user intersects two sessions of the
  second: two pairs intersect, and the endpoint reports 1.
\<close>

theorem overlap_count_counterexample:
  "map (\<lambda>row. row_field row ''overlap_count'')
     (response_list (fst (get_shared_rooms
        (plain_request [(''user1Id'', ''A''), (''user2Id'', ''B'')] [(''min_overlaps'', JNum 1)])
        two_visits_state)))
     = [JStr ''1'']
   \<and> length (spec_overlapping_pairs ''A'' ''B'' ''R'' two_visits_state) = 2"
proof -
  have rows: "map overlap_count (shared_rooms_rows ''A'' ''B'' 1 two_visits_state) = [1]"
    by (simp add: two_visits_state_def shared_eval)
  have resp: "fst (get_shared_rooms
        (plain_request [(''user1Id'', ''A''), (''user2Id'', ''B'')] [(''min_overlaps'', JNum 1)])
        two_visits_state)
      = Response 200 (JArr (map shared_row_js (shared_rooms_rows ''A'' ''B'' 1 two_visits_state)))"
    unfolding two_visits_state_def by (rule get_shared_rooms_plain)
  have "map (\<lambda>row. row_field row ''overlap_count'')
          (map shared_row_js (shared_rooms_rows ''A'' ''B'' 1 two_visits_state))
        = map (\<lambda>n. JStr (show_nat n)) (map overlap_count (shared_rooms_rows ''A'' ''B'' 1 two_visits_state))"
    by (simp add: shared_row_js_fields)
  then have first: "map (\<lambda>row. row_field row ''overlap_count'')
     (response_list (fst (get_shared_rooms
        (plain_request [(''user1Id'', ''A''), (''user2Id'', ''B'')] [(''min_overlaps'', JNum 1)])
        two_visits_state))) = [JStr ''1'']"
    by (simp add: resp response_list_def rows show_nat_small)
  have pairs: "length (spec_overlapping_pairs ''A'' ''B'' ''R'' two_visits_state) = 2"
    by (simp add: spec_overlapping_pairs_def two_visits_state_def overlaps_def coalesce_def
        closed_session_def plain_state_def)
  from first pairs show ?thesis by simp
qed

section \<open>The two directions of a comparison\<close>

lemma shared_join_exchange: "set (shared_join b a st) = exchange ` set (shared_join a b st)"
proof
  show "set (shared_join b a st) \<subseteq> exchange ` set (shared_join a b st)"
  proof
    fix j assume j: "j \<in> set (shared_join b a st)"
    obtain r s1 s2 where e: "j = (r, s1, s2)" by (cases j)
    with j have "(r, s2, s1) \<in> set (shared_join a b st)" by (auto simp: shared_join_mem)
    then have "exchange (r, s2, s1) \<in> exchange ` set (shared_join a b st)" by (rule imageI)
    then show "j \<in> exchange ` set (shared_join a b st)" by (simp add: exchange_def e)
  qed
  show "exchange ` set (shared_join a b st) \<subseteq> set (shared_join b a st)"
    by (auto simp: exchange_def shared_join_mem)
qed

lemma shared_key_exchange [simp]: "shared_key (exchange j) = shared_key j"
  by (cases j) (simp add: exchange_def shared_key_def)

lemma overlaps_sym: "overlaps now s2 s1 = overlaps now s1 s2"
  by (auto simp: overlaps_def)

text \<open>Two groups for the same key, one holding the pairs of the other exchanged.\<close>

lemma exchanged_group:
  assumes "set G' = exchange ` set G"
  shows "shared_view_swapped (shared_row_of now (k, G')) = shared_view (shared_row_of now (k, G))"
    and "(0 < overlap_count (shared_row_of now (k, G'))) = (0 < overlap_count (shared_row_of now (k, G)))"
proof -
  obtain room_id language topic skill_level is_active
    where k: "k = (room_id, language, topic, skill_level, is_active)"
    by (cases k)
  have empty: "(G' = []) = (G = [])" using assms by (metis image_is_empty set_empty)
  have u1: "(\<lambda>(r, s1, s2). s_session_id s2) ` set G' = (\<lambda>(r, s1, s2). s_session_id s1) ` set G"
    unfolding assms by (force simp: exchange_def image_iff split: prod.splits)
  have u2: "(\<lambda>(r, s1, s2). s_session_id s1) ` set G' = (\<lambda>(r, s1, s2). s_session_id s2) ` set G"
    unfolding assms by (force simp: exchange_def image_iff split: prod.splits)
  have last: "(\<lambda>(r, s1, s2). min (coalesce (s_left_at s1) now) (coalesce (s_left_at s2) now)) ` set G'
            = (\<lambda>(r, s1, s2). min (coalesce (s_left_at s1) now) (coalesce (s_left_at s2) now)) ` set G"
    unfolding assms by (force simp: exchange_def image_iff min.commute split: prod.splits)
  have first: "(\<lambda>(r, s1, s2). max (s_joined_at s1) (s_joined_at s2)) ` set G'
            = (\<lambda>(r, s1, s2). max (s_joined_at s1) (s_joined_at s2)) ` set G"
    unfolding assms by (force simp: exchange_def image_iff max.commute split: prod.splits)
  show "shared_view_swapped (shared_row_of now (k, G')) = shared_view (shared_row_of now (k, G))"
    by (simp add: k shared_view_swapped_def shared_view_def shared_row_of_def count_distinct_card
        sql_max_set sql_min_set u1 u2 last first empty)
  have ex: "(\<exists>j \<in> set G'. case j of (r, s1, s2) \<Rightarrow> overlaps now s1 s2)
          = (\<exists>j \<in> set G. case j of (r, s1, s2) \<Rightarrow> overlaps now s1 s2)"
    unfolding assms by (auto simp: exchange_def overlaps_sym split: prod.splits)
  have pos: "\<And>H. (0 < overlap_count (shared_row_of now (k, H)))
          = (\<exists>j \<in> set H. case j of (r, s1, s2) \<Rightarrow> overlaps now s1 s2)"
    by (auto simp: k shared_row_of_def count_distinct_card card_gt_0_iff)
  show "(0 < overlap_count (shared_row_of now (k, G'))) = (0 < overlap_count (shared_row_of now (k, G)))"
    by (simp add: pos ex)
qed


lemma exchanged_filter:
  "set (filter (\<lambda>j. shared_key j = k) (shared_join b a st))
     = exchange ` set (filter (\<lambda>j. shared_key j = k) (shared_join a b st))"
proof -
  have "set (filter (\<lambda>j. shared_key j = k) (shared_join b a st))
        = {j \<in> exchange ` set (shared_join a b st). shared_key j = k}"
    using shared_join_exchange[of b a st] by auto
  also have "\<dots> = exchange ` {j \<in> set (shared_join a b st). shared_key j = k}"
    by auto
  finally show ?thesis by simp
qed

lemma image_Collect_conv: "{y \<in> f ` K. P y} = f ` {k \<in> K. P (f k)}"
  by auto

lemma shared_keys_exchange:
  "shared_key ` set (shared_join b a st) = shared_key ` set (shared_join a b st)"
proof -
  have "shared_key ` set (shared_join b a st) = shared_key ` exchange ` set (shared_join a b st)"
    using shared_join_exchange[of b a st] by simp
  also have "\<dots> = shared_key ` set (shared_join a b st)"
    by (simp add: image_image)
  finally show ?thesis .
qed

text \<open>
  C3, as amended. With the default threshold (\<^verbatim>\<open>min_overlaps\<close> at most 1), the comparison
  of \<open>B\<close> with \<open>A\<close> reports the same rooms as the comparison of \<open>A\<close> with \<open>B\<close>, each with
  \<^verbatim>\<open>user1_sessions\<close> and \<^verbatim>\<open>user2_sessions\<close> exchanged and with the same
  \<^verbatim>\<open>first_overlap_time\<close> and \<^verbatim>\<open>last_overlap_time\<close>. The statement is about the rooms
  reported, not their order: \<^verbatim>\<open>overlap_count\<close> counts sessions of the first user, so it
  can differ between the two directions, and with it the order and the rooms that pass a
  higher threshold.
\<close>

theorem shared_rooms_symmetry:
  assumes "m \<le> 1"
  shows "shared_view_swapped ` set (shared_rooms_rows user2Id user1Id m st)
         = shared_view ` set (shared_rooms_rows user1Id user2Id m st)"
proof -
  let ?now = "db_now st"
  let ?G = "\<lambda>k. filter (\<lambda>j. shared_key j = k) (shared_join user1Id user2Id st)"
  let ?G' = "\<lambda>k. filter (\<lambda>j. shared_key j = k) (shared_join user2Id user1Id st)"
  let ?K = "shared_key ` set (shared_join user1Id user2Id st)"
  have passes: "\<And>row. (m \<le> int (overlap_count row)) = (m \<le> 0 \<or> 0 < overlap_count row)"
    using assms by auto
  have view: "\<And>k. shared_view_swapped (shared_row_of ?now (k, ?G' k))
                  = shared_view (shared_row_of ?now (k, ?G k))"
    by (rule exchanged_group(1)[OF exchanged_filter])
  have pos: "\<And>k. (0 < overlap_count (shared_row_of ?now (k, ?G' k)))
                 = (0 < overlap_count (shared_row_of ?now (k, ?G k)))"
    by (rule exchanged_group(2)[OF exchanged_filter])
  have l: "set (shared_rooms_rows user1Id user2Id m st)
         = (\<lambda>k. shared_row_of ?now (k, ?G k)) `
             {k \<in> ?K. m \<le> 0 \<or> 0 < overlap_count (shared_row_of ?now (k, ?G k))}"
    unfolding shared_rooms_rows_set shared_groups_set passes by (rule image_Collect_conv)
  have r: "set (shared_rooms_rows user2Id user1Id m st)
         = (\<lambda>k. shared_row_of ?now (k, ?G' k)) `
             {k \<in> ?K. m \<le> 0 \<or> 0 < overlap_count (shared_row_of ?now (k, ?G k))}"
    unfolding shared_rooms_rows_set shared_groups_set passes shared_keys_exchange[of user2Id user1Id st]
      image_Collect_conv pos ..
  show ?thesis
    unfolding l r image_image view ..
qed

lemma two_visits_rows:
  "map shared_view (shared_rooms_rows ''A'' ''B'' 1 two_visits_state) =
     [((''R'', None, None, None, Some True), 1, 2, Some 10, Some 40)]"
  "map overlap_count (shared_rooms_rows ''A'' ''B'' 1 two_visits_state) = [1]"
  "map overlap_count (shared_rooms_rows ''B'' ''A'' 1 two_visits_state) = [2]"
  "shared_rooms_rows ''A'' ''B'' 2 two_visits_state = []"
  "map sh_room_id (shared_rooms_rows ''B'' ''A'' 2 two_visits_state) = [''R'']"
  by (simp_all add: two_visits_state_def shared_eval shared_view_def)

text \<open>
  The amended statement where \<open>A\<close> has one session and \<open>B\<close> two: either direction reports
  room \<^verbatim>\<open>R\<close> with the session counts 1 and 2 attributed to \<open>A\<close> and \<open>B\<close>, first overlap at
  10 and last at 40.
\<close>

theorem shared_rooms_symmetry_witness:
  "shared_view ` set (shared_rooms_rows ''A'' ''B'' 1 two_visits_state)
     = {((''R'', None, None, None, Some True), 1, 2, Some 10, Some 40)}
   \<and> shared_view_swapped ` set (shared_rooms_rows ''B'' ''A'' 1 two_visits_state)
     = {((''R'', None, None, None, Some True), 1, 2, Some 10, Some 40)}"
proof -
  have one: "(1::int) \<le> 1" by simp
  have "set (map shared_view (shared_rooms_rows ''A'' ''B'' 1 two_visits_state))
          = {((''R'', None, None, None, Some True), 1, 2, Some 10, Some 40)}"
    by (simp only: two_visits_rows(1)) simp
  then have a: "shared_view ` set (shared_rooms_rows ''A'' ''B'' 1 two_visits_state)
          = {((''R'', None, None, None, Some True), 1, 2, Some 10, Some 40)}"
    by simp
  from shared_rooms_symmetry[OF one, where ?user1Id = "''A''" and ?user2Id = "''B''"
      and ?st = two_visits_state] a
  show ?thesis by simp
qed

text \<open>
  The claim as stated fails on the same data: the comparison of \<open>A\<close> with \<open>B\<close> reports
  \<^verbatim>\<open>overlap_count\<close> 1 and the comparison of \<open>B\<close> with \<open>A\<close> reports 2; with
  \<^verbatim>\<open>min_overlaps=2\<close> the first reports no room and the second reports room \<^verbatim>\<open>R\<close>.
\<close>

theorem shared_rooms_symmetry_counterexample:
  "map (\<lambda>row. row_field row ''overlap_count'')
     (response_list (fst (get_shared_rooms
        (plain_request [(''user1Id'', ''A''), (''user2Id'', ''B'')] [(''min_overlaps'', JNum 1)])
        two_visits_state))) = [JStr ''1'']
   \<and> map (\<lambda>row. row_field row ''overlap_count'')
     (response_list (fst (get_shared_rooms
        (plain_request [(''user1Id'', ''B''), (''user2Id'', ''A'')] [(''min_overlaps'', JNum 1)])
        two_visits_state))) = [JStr ''2'']
   \<and> response_list (fst (get_shared_rooms
        (plain_request [(''user1Id'', ''A''), (''user2Id'', ''B'')] [(''min_overlaps'', JNum 2)])
        two_visits_state)) = []
   \<and> map (\<lambda>row. row_field row ''room_id'')
     (response_list (fst (get_shared_rooms
        (plain_request [(''user1Id'', ''B''), (''user2Id'', ''A'')] [(''min_overlaps'', JNum 2)])
        two_visits_state))) = [JStr ''R'']"
proof -
  have resp: "\<And>a b m. response_list (fst (get_shared_rooms
        (plain_request [(''user1Id'', a), (''user2Id'', b)] [(''min_overlaps'', JNum m)])
        two_visits_state)) = map shared_row_js (shared_rooms_rows a b m two_visits_state)"
    unfolding two_visits_state_def by (simp add: get_shared_rooms_plain response_list_def)
  have count: "\<And>rows. map (\<lambda>row. row_field row ''overlap_count'') (map shared_row_js rows)
        = map (\<lambda>n. JStr (show_nat n)) (map overlap_count rows)"
    by (simp add: shared_row_js_fields)
  have room: "\<And>rows. map (\<lambda>row. row_field row ''room_id'') (map shared_row_js rows)
        = map JStr (map sh_room_id rows)"
    by (simp add: shared_row_js_fields)
  show ?thesis
    unfolding resp count room two_visits_rows by (simp add: show_nat_small)
qed

section \<open>Routing of the discovery paths\<close>

lemma segments_rooms_trending: "segments ''/rooms/trending'' = [''rooms'', ''trending'']"
  by (simp add: segments_def)

lemma segments_rooms_active: "segments ''/rooms/active'' = [''rooms'', ''active'']"
  by (simp add: segments_def)

lemma segments_rooms_search: "segments ''/rooms/search'' = [''rooms'', ''search'']"
  by (simp add: segments_def)

lemma segments_patterns:
  "segments ''/users/search'' = [''users'', ''search'']"
  "segments ''/users/:userId'' = [''users'', '':userId'']"
  "segments ''/users/:userId/history'' = [''users'', '':userId'', ''history'']"
  "segments ''/users/:userId/rooms'' = [''users'', '':userId'', ''rooms'']"
  "segments ''/users/:userId/rooms/:roomId/sessions'' =
     [''users'', '':userId'', ''rooms'', '':roomId'', ''sessions'']"
  "segments ''/rooms/:roomId'' = [''rooms'', '':roomId'']"
  by (simp_all add: segments_def)

lemma lower_users: "lower ''users'' = ''users''"
  by (simp add: lower_def lower_char_def)

lemma lower_rooms: "lower ''rooms'' = ''rooms''"
  by (simp add: lower_def lower_char_def)

lemma dispatch_rooms_literal:
  assumes "segments path = [''rooms'', x]" and "x \<noteq> []"
    and "path \<noteq> []" and "hd path = CHR ''/''"
  shows "dispatch GET path = Some (RoomDetails, [(''roomId'', x)])"
  using assms
  by (simp add: dispatch_def routes_def match_route_def segments_patterns
      lower_users lower_rooms)

text \<open>
  C4. The claim: GET \<^verbatim>\<open>/rooms/trending\<close>, \<^verbatim>\<open>/rooms/active\<close> and \<^verbatim>\<open>/rooms/search\<close> reach
  their discovery handlers. The code: \<^verbatim>\<open>/rooms/:roomId\<close> is registered at line 329, before
  the three discovery routes (lines 724, 783, 847), so each of the three paths is dispatched to
  the room point-lookup with \<^verbatim>\<open>roomId\<close> bound to the literal word; the discovery handlers
  are unreachable. (The sibling \<^verbatim>\<open>/users/search\<close> is registered before
  \<^verbatim>\<open>/users/:userId\<close> and is reached.)
\<close>

theorem discovery_paths_dispatch_to_room_lookup:
  "dispatch GET ''/rooms/trending'' = Some (RoomDetails, [(''roomId'', ''trending'')])
   \<and> dispatch GET ''/rooms/active'' = Some (RoomDetails, [(''roomId'', ''active'')])
   \<and> dispatch GET ''/rooms/search'' = Some (RoomDetails, [(''roomId'', ''search'')])
   \<and> dispatch GET ''/users/search'' = Some (UsersSearch, [])"
proof -
  have t: "dispatch GET ''/rooms/trending'' = Some (RoomDetails, [(''roomId'', ''trending'')])"
    by (rule dispatch_rooms_literal) (simp_all add: segments_rooms_trending)
  have a: "dispatch GET ''/rooms/active'' = Some (RoomDetails, [(''roomId'', ''active'')])"
    by (rule dispatch_rooms_literal) (simp_all add: segments_rooms_active)
  have s: "dispatch GET ''/rooms/search'' = Some (RoomDetails, [(''roomId'', ''search'')])"
    by (rule dispatch_rooms_literal) (simp_all add: segments_rooms_search)
  have u: "dispatch GET ''/users/search'' = Some (UsersSearch, [])"
    by (simp add: dispatch_def routes_def match_route_def segments_def lower_users)
  from t a s u show ?thesis by simp
qed

section \<open>Numeric fields of the profile and of the room history\<close>

lemma get_user_profile_ok:
  assumes "fst (get_user_profile req st) = Response 200 b"
  shows "\<exists>u stats fav. u \<in> set (db_users st) \<and> b = JObj (profile_body (user_row u) stats fav)"
proof -
  have mem: "\<And>u us. filter (user_where (path_param req ''userId'')) (db_users st) = u # us
      \<Longrightarrow> u \<in> set (db_users st)"
  proof -
    fix u us assume "filter (user_where (path_param req ''userId'')) (db_users st) = u # us"
    then have "u \<in> set (filter (user_where (path_param req ''userId'')) (db_users st))" by simp
    then show "u \<in> set (db_users st)" by simp
  qed
  show ?thesis
    using assms mem
    by (auto simp: get_user_profile_def pool_query_def user_run_def user_stats_run_def
        fav_lang_run_def Let_def get_user_failed_def awaited_view
        split: option.splits list.splits if_splits)
qed

lemma profile_body_metric:
  assumes "k \<in> set profile_metric_names"
  shows "js_get (profile_body user stats fav) k = js_or (js_get user k) (JNum 0)"
  using assms
  by (auto simp: profile_metric_names_def profile_body_def js_get_js_set js_get_js_set_other)

lemma js_or_number: "js_or v (JNum 0) \<notin> {JUndef, JNull, JNaN}"
  by (cases v) (auto simp: js_or_def)

lemma js_or_null: "v \<in> {JUndef, JNull} \<Longrightarrow> js_or v (JNum 0) = JNum 0"
  by (auto simp: js_or_def)

lemma parseInt_or_zero: "\<exists>n. js_or (parseInt v) (JNum 0) = JNum n"
  by (cases v) (auto simp: js_or_def parseInt_def split: option.splits)

lemma parseInt_null: "v \<in> {JUndef, JNull} \<Longrightarrow> js_or (parseInt v) (JNum 0) = JNum 0"
  by (auto simp: js_or_def parseInt_def parseInt_string_def parse_unsigned_def is_space_def
      radix_val_def hex_val_def)

lemma profile_body_statistic:
  assumes "k \<in> set profile_statistic_names"
  shows "statistics_field (Response code (JObj (profile_body user stats fav))) k =
           js_or (parseInt (js_get stats k)) (JNum 0)"
  using assms
  by (auto simp: profile_statistic_names_def statistics_field_def profile_body_def js_get_js_set)
     (simp_all add: js_get_def)

lemma user_rooms_row_total_visits:
  "\<exists>n. row_field (user_rooms_row kg) ''total_visits'' = JStr (show_nat n)"
  by (cases kg) (auto simp: user_rooms_row_def row_field_def js_get_def js_count_def split: prod.splits)

lemma get_user_rooms_ok:
  assumes "fst (get_user_rooms req st) = Response 200 b"
  shows "\<exists>page. response_rows (Response 200 b) ''rooms'' = map user_rooms_row page"
  using assms
  by (auto simp: get_user_rooms_def pool_query_def user_rooms_run_def user_rooms_count_run_def
        Let_def get_rooms_failed_def response_rows_def js_get_def
        split: option.splits list.splits if_splits sum.splits)

text \<open>
  C5, as amended. In the response of \<^verbatim>\<open>GET /users/:userId\<close>, each of the seven numeric
  profile fields is never \<^verbatim>\<open>null\<close>, \<^verbatim>\<open>undefined\<close> or \<^verbatim>\<open>NaN\<close> and is 0 when the
  user row has \<^verbatim>\<open>null\<close> or nothing there, and each of the four numeric fields of the
  statistics block is a number, 0 when the statistics row has \<^verbatim>\<open>null\<close> or nothing there;
  every 200 response of the handler has this body, built from a stored user's row. In every
  row of a 200 response of \<^verbatim>\<open>GET /users/:userId/rooms\<close> the count \<^verbatim>\<open>total_visits\<close> is
  the decimal text of a number.
\<close>


theorem profile_numbers_default_to_zero:
  "(\<forall>k \<in> set profile_metric_names.
      js_get (profile_body user stats fav) k \<notin> {JUndef, JNull, JNaN}
      \<and> (if js_get user k \<in> {JUndef, JNull} then js_get (profile_body user stats fav) k = JNum 0
          else js_get (profile_body user stats fav) k = js_or (js_get user k) (JNum 0)))
   \<and> (\<forall>k \<in> set profile_statistic_names.
        (\<exists>n. statistics_field (Response 200 (JObj (profile_body user stats fav))) k = JNum n)
        \<and> (if js_get stats k \<in> {JUndef, JNull}
            then statistics_field (Response 200 (JObj (profile_body user stats fav))) k = JNum 0
            else statistics_field (Response 200 (JObj (profile_body user stats fav))) k =
                   js_or (parseInt (js_get stats k)) (JNum 0)))
   \<and> (fst (get_user_profile req st) = Response 200 body \<longrightarrow>
        (\<exists>u stats' fav'. u \<in> set (db_users st)
           \<and> body = JObj (profile_body (user_row u) stats' fav')))
   \<and> (fst (get_user_rooms req st) = Response 200 body' \<longrightarrow>
        (\<forall>row \<in> set (response_rows (Response 200 body') ''rooms'').
           \<exists>n. row_field row ''total_visits'' = JStr (show_nat n)))"
proof -
  have a: "\<forall>k \<in> set profile_metric_names.
      js_get (profile_body user stats fav) k \<notin> {JUndef, JNull, JNaN}
      \<and> (if js_get user k \<in> {JUndef, JNull} then js_get (profile_body user stats fav) k = JNum 0
          else js_get (profile_body user stats fav) k = js_or (js_get user k) (JNum 0))"
    using js_or_number js_or_null by (simp add: profile_body_metric)
  have b: "\<forall>k \<in> set profile_statistic_names.
        (\<exists>n. statistics_field (Response 200 (JObj (profile_body user stats fav))) k = JNum n)
        \<and> (if js_get stats k \<in> {JUndef, JNull}
            then statistics_field (Response 200 (JObj (profile_body user stats fav))) k = JNum 0
            else statistics_field (Response 200 (JObj (profile_body user stats fav))) k =
                   js_or (parseInt (js_get stats k)) (JNum 0))"
    using parseInt_or_zero parseInt_null by (simp add: profile_body_statistic)
  have c: "fst (get_user_profile req st) = Response 200 body \<longrightarrow>
        (\<exists>u stats' fav'. u \<in> set (db_users st)
           \<and> body = JObj (profile_body (user_row u) stats' fav'))"
    using get_user_profile_ok by blast
  have d: "fst (get_user_rooms req st) = Response 200 body' \<longrightarrow>
        (\<forall>row \<in> set (response_rows (Response 200 body') ''rooms'').
           \<exists>n. row_field row ''total_visits'' = JStr (show_nat n))"
  proof
    assume "fst (get_user_rooms req st) = Response 200 body'"
    then obtain page where "response_rows (Response 200 body') ''rooms'' = map user_rooms_row page"
      using get_user_rooms_ok by blast
    then show "\<forall>row \<in> set (response_rows (Response 200 body') ''rooms'').
           \<exists>n. row_field row ''total_visits'' = JStr (show_nat n)"
      using user_rooms_row_total_visits by auto
  qed
  from a b c d show ?thesis by blast
qed

text \<open>
  The amended statement at the request \<^verbatim>\<open>/users/alice\<close> on the storage with the one user
  Alice, whose \<^verbatim>\<open>following_count\<close> is NULL and who has no sessions.
\<close>

theorem profile_numbers_default_to_zero_witness:
  "\<exists>body n.
     fst (get_user_profile (plain_request [(''userId'', ''alice'')] []) lone_user_state) =
       Response 200 (JObj body)
     \<and> js_get body ''following_count'' = JNum 0
     \<and> statistics_field (Response 200 (JObj body)) ''total_sessions'' = JNum n"
proof -
  let ?req = "plain_request [(''userId'', ''alice'')] []"
  let ?u = "plain_user ''u1'' ''Alice'' None None"
  obtain stats where stats: "user_stats_run (u_user_id ?u) lone_user_state = Inr [stats]"
    using user_stats_one_row by blast
  obtain favRows where fav: "fav_lang_run (u_user_id ?u) lone_user_state = Inr favRows"
    using fav_lang_rows by blast
  have resp: "fst (get_user_profile ?req lone_user_state) =
      Response 200 (JObj (profile_body (user_row ?u) stats (favorite_of favRows)))"
    using get_user_profile_found(1)[OF lone_user_lookup lone_user_no_fault stats fav] .
  note all = profile_numbers_default_to_zero[of "user_row ?u" stats "favorite_of favRows"
      ?req lone_user_state "JObj (profile_body (user_row ?u) stats (favorite_of favRows))" JNull]
  have m: "''following_count'' \<in> set profile_metric_names"
    by (simp add: profile_metric_names_def)
  have s: "''total_sessions'' \<in> set profile_statistic_names"
    by (simp add: profile_statistic_names_def)
  have null: "js_get (user_row ?u) ''following_count'' = JNull"
    by (simp add: user_row_def js_get_def plain_user_def)
  from all m null
  have f: "js_get (profile_body (user_row ?u) stats (favorite_of favRows)) ''following_count'' = JNum 0"
    by (metis insert_iff)
  from all s obtain n where
    "statistics_field (Response 200 (JObj (profile_body (user_row ?u) stats (favorite_of favRows))))
       ''total_sessions'' = JNum n"
    by blast
  with resp f show ?thesis by blast
qed

text \<open>
  The claim as stated fails for the room history: the handler returns the rows as the query
  produced them, and \<^verbatim>\<open>SUM(s.duration_seconds)\<close> and \<^verbatim>\<open>AVG(s.duration_seconds)\<close> are
  NULL for a room whose sessions all have a NULL duration. Here user \<^verbatim>\<open>A\<close> has one
  session, still open, in room \<^verbatim>\<open>r1\<close>.
\<close>

theorem user_rooms_null_aggregates:
  "response_status (fst (get_user_rooms (plain_request [(''userId'', ''A'')] []) closed_room_state)) = 200
   \<and> map (\<lambda>row. (row_field row ''room_id'', row_field row ''total_visits'',
                  row_field row ''total_time_seconds'', row_field row ''avg_session_duration''))
       (response_rows (fst (get_user_rooms (plain_request [(''userId'', ''A'')] []) closed_room_state))
          ''rooms'')
     = [(JStr ''r1'', JStr ''1'', JNull, JNull)]"
  by (simp add: get_user_rooms_def pool_query_def user_rooms_run_def user_rooms_count_run_def
      user_rooms_joined_def group_by_def user_rooms_key_def user_rooms_row_def
      sql_limit_offset_def sql_limit_def pg_int_def query_default_def js_get_def
      closed_room_state_def plain_state_def plain_room_def plain_request_def path_param_def
      response_rows_def row_field_def response_status_def Let_def
      sql_sum_def sql_avg_integer_def sql_max_def sql_min_def non_null_def js_bigint_def js_int_def
      js_count_def show_nat_small desc_nulls_first_def js_timestamp_def js_text_def js_bool_def)

section \<open>The order of the user search\<close>

lemma like_percent_only: "like ''%'' s"
  by (induction s) simp_all

lemma like_literal_prefix:
  "no_wildcards p \<Longrightarrow> like (p @ ''%'') s = is_prefix p s"
proof (induction p arbitrary: s)
  case Nil
  then show ?case by (simp add: like_percent_only is_prefix_def)
next
  case (Cons c p)
  then have c: "c \<noteq> CHR ''%''" "c \<noteq> CHR ''_''" "c \<noteq> CHR 0x5C" and p: "no_wildcards p"
    by (simp_all add: no_wildcards_def)
  show ?case
  proof (cases s)
    case Nil
    then show ?thesis using c by (simp add: is_prefix_def)
  next
    case (Cons x xs)
    then show ?thesis using c Cons.IH[OF p, of xs] by (auto simp: is_prefix_def)
  qed
qed

lemma like_percent: "like (CHR ''%'' # ps) s = (\<exists>n\<le>length s. like ps (drop n s))"
proof (induction s)
  case Nil
  then show ?case by simp
next
  case (Cons x xs)
  have "(\<exists>n\<le>length (x # xs). like ps (drop n (x # xs)))
        = (like ps (x # xs) \<or> (\<exists>n\<le>length xs. like ps (drop n xs)))"
  proof
    assume "\<exists>n\<le>length (x # xs). like ps (drop n (x # xs))"
    then obtain n where n: "n \<le> length (x # xs)" "like ps (drop n (x # xs))" by blast
    show "like ps (x # xs) \<or> (\<exists>n\<le>length xs. like ps (drop n xs))"
    proof (cases n)
      case 0
      then show ?thesis using n by simp
    next
      case (Suc m)
      then show ?thesis using n by auto
    qed
  next
    assume "like ps (x # xs) \<or> (\<exists>n\<le>length xs. like ps (drop n xs))"
    then show "\<exists>n\<le>length (x # xs). like ps (drop n (x # xs))"
    proof
      assume "like ps (x # xs)"
      then have "like ps (drop 0 (x # xs))" by simp
      then show ?thesis by blast
    next
      assume "\<exists>n\<le>length xs. like ps (drop n xs)"
      then obtain n where "n \<le> length xs" "like ps (drop n xs)" by blast
      then have "Suc n \<le> length (x # xs)" "like ps (drop (Suc n) (x # xs))" by simp_all
      then show ?thesis by blast
    qed
  qed
  then show ?case using Cons.IH by simp
qed

lemma like_literal_substring:
  assumes "no_wildcards p"
  shows "like (''%'' @ p @ ''%'') s = is_substring p s"
proof -
  have "like (''%'' @ p @ ''%'') s = (\<exists>n\<le>length s. is_prefix p (drop n s))"
    using like_percent[of "p @ ''%''" s] like_literal_prefix[OF assms] by simp
  also have "\<dots> = is_substring p s"
    by (auto simp: is_substring_def list_ex_iff less_Suc_eq_le simp del: upt_Suc)
  finally show ?thesis .
qed

lemma lower_char_wildcard:
  "lower_char c = CHR ''%'' \<longleftrightarrow> c = CHR ''%''"
  "lower_char c = CHR ''_'' \<longleftrightarrow> c = CHR ''_''"
  "lower_char c = CHR 0x5C \<longleftrightarrow> c = CHR 0x5C"
  by (auto simp: lower_char_def split: option.splits if_splits)

lemma no_wildcards_lower: "no_wildcards q \<Longrightarrow> no_wildcards (lower q)"
  by (induction q) (simp_all add: no_wildcards_def lower_def lower_char_wildcard)

lemma lower_append: "lower (a @ b) = lower a @ lower b"
  by (simp add: lower_def)

lemma lower_Cons: "lower (c # s) = lower_char c # lower s"
  by (simp add: lower_def)

lemma lower_Nil: "lower [] = []"
  by (simp add: lower_def)

lemma lower_char_percent: "lower_char CHR ''%'' = CHR ''%''"
  by (simp add: lower_char_def)

lemmas lower_pattern = lower_append lower_Cons lower_Nil lower_char_percent

lemma search_tier_spec:
  assumes "no_wildcards q"
  shows "search_tier q (q @ ''%'') u = spec_search_tier q u"
  using like_literal_prefix[OF no_wildcards_lower[OF assms]]
  by (simp add: search_tier_def spec_search_tier_def lower_pattern)

lemma search_key_spec:
  assumes "no_wildcards q"
  shows "search_key q (q @ ''%'') = spec_search_key q"
  by (rule ext) (simp add: search_key_def spec_search_key_def search_tier_spec[OF assms])

lemma users_search_where_spec:
  assumes "no_wildcards q"
  shows "users_search_where (''%'' @ q @ ''%'') u
         = (is_substring (lower q) (lower (u_username u)) \<or> is_substring (lower q) (lower (u_user_id u)))"
  using like_literal_substring[OF no_wildcards_lower[OF assms]]
  by (simp add: users_search_where_def lower_pattern)

lemma sql_limit_take: "sql_limit limit rows = Inr page \<Longrightarrow> \<exists>n. page = take n rows"
  by (auto simp: sql_limit_def split: option.splits if_splits)

lemma users_search_run_log [simp]:
  "users_search_run a b c l (st\<lparr>db_log := x\<rparr>) = users_search_run a b c l st"
  by (simp add: users_search_run_def)

text \<open>
  C6, as amended. For a query of length at least 2 that contains none of the characters
  \<^verbatim>\<open>%\<close>, \<^verbatim>\<open>_\<close> and backslash, the rows of a 200 response are ordered first by tier
  (username equal to the query, letter case ignored; then query a prefix of the username; then
  the rest), within a tier by \<^verbatim>\<open>followers_count\<close> descending with NULLs last, then by
  \<^verbatim>\<open>total_sessions\<close> descending with NULLs last; and each row is a stored user whose
  username or identity contains the query, letter case ignored. The handler passes the query
  into the \<^verbatim>\<open>LIKE\<close> patterns unescaped, so with one of the three characters the tiers and
  the matches are those of the pattern, not of the text.
\<close>

theorem users_search_order:
  assumes q: "js_get (req_query req) ''q'' = JStr q"
    and len: "2 \<le> length q"
    and plain: "no_wildcards q"
    and ok: "fst (get_users_search req st) = Response 200 body"
  shows "\<exists>rows. body = JArr (map users_search_row rows)
           \<and> users_search_run (''%'' @ q @ ''%'') q (q @ ''%'')
                (query_default req ''limit'' (JNum 20)) st = Inr rows
           \<and> sorted (map (spec_search_key q) rows)
           \<and> (\<forall>u \<in> set rows.
                 u \<in> set (db_users st)
                 \<and> (is_substring (lower q) (lower (u_username u))
                     \<or> is_substring (lower q) (lower (u_user_id u))))"
proof -
  let ?limit = "query_default req ''limit'' (JNum 20)"
  let ?run = "users_search_run (''%'' @ q @ ''%'') q (q @ ''%'') ?limit st"
  have guard: "truthy (JStr q)" "\<not> js_lt (js_length (JStr q)) (JNum 2)"
    using len by (auto simp: js_lt_def js_length_def)
  from ok obtain rows where run: "?run = Inr rows" and body: "body = JArr (map users_search_row rows)"
    using q guard
    by (auto simp: get_users_search_def pool_query_def Let_def
        split: option.splits sum.splits)
  let ?all = "users_search_ordered (''%'' @ q @ ''%'') q (q @ ''%'') (db_users st)"
  obtain n where n: "rows = take n ?all"
    using run sql_limit_take by (fastforce simp: users_search_run_def)
  have "sorted (map (spec_search_key q) ?all)"
    unfolding users_search_ordered_def search_key_spec[OF plain] by (rule sorted_sort_key)
  then have sorted: "sorted (map (spec_search_key q) rows)"
    unfolding n take_map[symmetric] by (rule sorted_wrt_take)
  have "set rows \<subseteq> set ?all" unfolding n by (rule set_take_subset)
  then have mem: "\<forall>u \<in> set rows.
                 u \<in> set (db_users st)
                 \<and> (is_substring (lower q) (lower (u_username u))
                     \<or> is_substring (lower q) (lower (u_user_id u)))"
    using users_search_where_spec[OF plain] by (auto simp: users_search_ordered_def)
  from body run sorted mem show ?thesis by blast
qed


lemma users_search_row_username: "row_field (users_search_row u) ''username'' = JStr (u_username u)"
  by (simp add: users_search_row_def row_field_def js_get_def)

lemmas search_eval = users_search_run_def users_search_ordered_def users_search_where_def
  search_key_def search_tier_def desc_nulls_last_def sql_limit_def pg_int_def plain_user_def
  plain_state_def lower_def lower_char_def less_eq_prod_def less_prod_def

text \<open>
  The scenario: \<^verbatim>\<open>alice\<close> with 100 followers and \<^verbatim>\<open>alice99\<close> with 500, searched with
  \<^verbatim>\<open>q=alice\<close>; the exact match comes first.
\<close>

theorem users_search_order_witness:
  "\<exists>rows. fst (get_users_search (plain_request [] [(''q'', JStr ''alice'')]) alice_state) =
            Response 200 (JArr (map users_search_row rows))
          \<and> map u_username rows = [''alice'', ''alice99'']
          \<and> map u_followers_count rows = [Some 100, Some 500]
          \<and> sorted (map (spec_search_key ''alice'') rows)"
proof -
  let ?req = "plain_request [] [(''q'', JStr ''alice'')]"
  let ?rows = "[plain_user ''u1'' ''alice'' (Some 100) None, plain_user ''u2'' ''alice99'' (Some 500) None]"
  have q: "js_get (req_query ?req) ''q'' = JStr ''alice''"
    by (simp add: plain_request_def js_get_def)
  have limit: "query_default ?req ''limit'' (JNum 20) = JNum 20"
    by (simp add: query_default_def plain_request_def js_get_def)
  have run: "users_search_run (''%'' @ ''alice'' @ ''%'') ''alice'' (''alice'' @ ''%'') (JNum 20) alice_state
             = Inr ?rows"
    by (simp add: alice_state_def search_eval)
  have resp: "fst (get_users_search ?req alice_state) = Response 200 (JArr (map users_search_row ?rows))"
    using run by (simp add: get_users_search_def Let_def q limit js_lt_def js_length_def pool_query_def
        alice_state_def plain_state_def)
  have len: "2 \<le> length ''alice''" by simp
  have plain: "no_wildcards ''alice''" by (simp add: no_wildcards_def)
  from users_search_order[OF q len plain resp]
  obtain rows where "users_search_run (''%'' @ ''alice'' @ ''%'') ''alice'' (''alice'' @ ''%'')
                (query_default ?req ''limit'' (JNum 20)) alice_state = Inr rows"
    and sorted: "sorted (map (spec_search_key ''alice'') rows)"
    by blast
  then have rows: "rows = ?rows" using run limit by simp
  show ?thesis
    using resp sorted unfolding rows by (intro exI[of _ ?rows]) (simp add: plain_user_def)
qed

text \<open>
  The claim as stated fails for the query \<^verbatim>\<open>a_\<close>: the user \<^verbatim>\<open>ab\<close> is returned, and
  before \<^verbatim>\<open>xa_\<close>, although \<^verbatim>\<open>ab\<close> does not contain the query, neither name has it as a
  prefix, and \<^verbatim>\<open>xa_\<close> has more followers.
\<close>

theorem users_search_order_counterexample:
  "map (\<lambda>row. row_field row ''username'')
     (response_list (fst (get_users_search (plain_request [] [(''q'', JStr ''a_'')]) underscore_state)))
     = [JStr ''ab'', JStr ''xa_'']
   \<and> spec_search_key ''a_'' (plain_user ''u1'' ''xa_'' (Some 100) None)
       < spec_search_key ''a_'' (plain_user ''u2'' ''ab'' (Some 0) None)
   \<and> \<not> is_substring ''a_'' ''ab''"
proof -
  let ?req = "plain_request [] [(''q'', JStr ''a_'')]"
  let ?rows = "[plain_user ''u2'' ''ab'' (Some 0) None, plain_user ''u1'' ''xa_'' (Some 100) None]"
  have q: "js_get (req_query ?req) ''q'' = JStr ''a_''"
    by (simp add: plain_request_def js_get_def)
  have limit: "query_default ?req ''limit'' (JNum 20) = JNum 20"
    by (simp add: query_default_def plain_request_def js_get_def)
  have run: "users_search_run (''%'' @ ''a_'' @ ''%'') ''a_'' (''a_'' @ ''%'') (JNum 20) underscore_state
             = Inr ?rows"
    by (simp add: underscore_state_def search_eval)
  have resp: "fst (get_users_search ?req underscore_state) = Response 200 (JArr (map users_search_row ?rows))"
    using run by (simp add: get_users_search_def Let_def q limit js_lt_def js_length_def pool_query_def
        underscore_state_def plain_state_def)
  have key: "spec_search_key ''a_'' (plain_user ''u1'' ''xa_'' (Some 100) None)
       < spec_search_key ''a_'' (plain_user ''u2'' ''ab'' (Some 0) None)"
    by (simp add: spec_search_key_def spec_search_tier_def is_prefix_def desc_nulls_last_def
        plain_user_def lower_def lower_char_def less_prod_def less_eq_prod_def)
  have sub: "\<not> is_substring ''a_'' ''ab''"
    by (simp add: is_substring_def is_prefix_def)
  show ?thesis
    using key sub by (simp add: resp response_list_def users_search_row_username plain_user_def)
qed

section \<open>The activity flag of a room\<close>

lemma room_body_statistics:
  "\<exists>stats'. js_get (room_body room stats) ''statistics'' = JObj stats'
     \<and> js_get stats' ''currently_active_users'' =
         js_or (parseInt (js_get stats ''currently_active_users'')) (JNum 0)
     \<and> js_get stats' ''is_currently_active'' =
         js_and (js_get room ''is_active'')
           (JBool (js_gt (parseInt (js_get stats ''currently_active_users'')) (JNum 0)))"
  by (simp add: room_body_def js_get_js_set) (simp add: js_get_def)

lemma currently_active_users_log [simp]:
  "currently_active_users (st\<lparr>db_log := l\<rparr>) roomId = currently_active_users st roomId"
  by (simp add: currently_active_users_def)

lemma room_stats_row:
  "\<exists>stats. room_stats_run roomId st = Inr [stats]
     \<and> js_get stats ''currently_active_users'' = js_count (currently_active_users st roomId)"
  by (simp add: room_stats_run_def Let_def js_get_def)

lemma room_stats_run_log [simp]:
  "room_stats_run roomId (st\<lparr>db_log := l\<rparr>) = room_stats_run roomId st"
  by (simp add: room_stats_run_def)

lemma get_room_found:
  assumes "filter (\<lambda>r. r_room_id r = path_param req ''roomId'') (db_rooms st) = r # rs"
    and "db_fault st (length (db_log st)) = None"
    and "db_fault st (Suc (length (db_log st))) = None"
    and "room_stats_run (path_param req ''roomId'') st = Inr [stats]"
  shows "fst (get_room req st) = Response 200 (JObj (room_body (room_row r) stats))"
  using assms by (simp add: get_room_def pool_query_def room_run_def Let_def first_row_def)

lemma room_row_is_active: "js_get (room_row r) ''is_active'' = js_bool (r_is_active r)"
  by (simp add: js_get_def room_row_def)

text \<open>
  C7, as amended. For an existing room (the storage answering both queries), the response has
  status 200, \<^verbatim>\<open>statistics.currently_active_users\<close> is the number of the room's sessions
  with \<^verbatim>\<open>is_currently_active\<close> true, and \<^verbatim>\<open>statistics.is_currently_active\<close> is
  \<^verbatim>\<open>true\<close> if and only if the room's own \<^verbatim>\<open>is_active\<close> column is true and that number
  is greater than zero: line 401 guards the comparison with \<^verbatim>\<open>room.is_active &&\<close>.
\<close>

theorem room_is_currently_active:
  assumes "filter (\<lambda>r. r_room_id r = path_param req ''roomId'') (db_rooms st) = r # rs"
    and "db_fault st (length (db_log st)) = None"
    and "db_fault st (Suc (length (db_log st))) = None"
  shows "response_status (fst (get_room req st)) = 200
         \<and> statistics_field (fst (get_room req st)) ''currently_active_users'' =
             JNum (int (currently_active_users st (path_param req ''roomId'')))
         \<and> (statistics_field (fst (get_room req st)) ''is_currently_active'' = JBool True
              \<longleftrightarrow> r_is_active r = Some True
                  \<and> 0 < currently_active_users st (path_param req ''roomId''))"
proof -
  let ?n = "currently_active_users st (path_param req ''roomId'')"
  obtain stats where run: "room_stats_run (path_param req ''roomId'') st = Inr [stats]"
    and cau: "js_get stats ''currently_active_users'' = js_count ?n"
    using room_stats_row by blast
  have resp: "fst (get_room req st) = Response 200 (JObj (room_body (room_row r) stats))"
    using get_room_found[OF assms run] .
  obtain stats' where st: "js_get (room_body (room_row r) stats) ''statistics'' = JObj stats'"
    and c: "js_get stats' ''currently_active_users'' =
         js_or (parseInt (js_get stats ''currently_active_users'')) (JNum 0)"
    and a: "js_get stats' ''is_currently_active'' =
         js_and (js_get (room_row r) ''is_active'')
           (JBool (js_gt (parseInt (js_get stats ''currently_active_users'')) (JNum 0)))"
    using room_body_statistics[of "room_row r" stats] by blast
  have field: "\<And>k. statistics_field (fst (get_room req st)) k = js_get stats' k"
    by (simp add: statistics_field_def resp st)
  have c': "js_get stats' ''currently_active_users'' = JNum (int ?n)"
    by (simp add: c cau parseInt_count js_or_def)
  have a': "js_get stats' ''is_currently_active'' = JBool True
              \<longleftrightarrow> r_is_active r = Some True \<and> 0 < ?n"
    by (simp add: a cau parseInt_count room_row_is_active js_and_def js_gt_def js_lt_def js_bool_def
        split: option.splits)
  have ok: "response_status (fst (get_room req st)) = 200"
    by (simp add: resp response_status_def)
  show ?thesis unfolding field c' using a' ok by simp
qed

text \<open>The amended statement at a room that is active and has one user present.\<close>

theorem room_is_currently_active_witness:
  "statistics_field (fst (get_room (plain_request [(''roomId'', ''r1'')] []) open_room_state))
     ''is_currently_active'' = JBool True
   \<and> statistics_field (fst (get_room (plain_request [(''roomId'', ''r1'')] []) open_room_state))
       ''currently_active_users'' = JNum 1"
proof -
  have p: "path_param (plain_request [(''roomId'', ''r1'')] []) ''roomId'' = ''r1''"
    by simp
  have f: "filter (\<lambda>r. r_room_id r = path_param (plain_request [(''roomId'', ''r1'')] []) ''roomId'')
             (db_rooms open_room_state) = plain_room ''r1'' (Some True) # []"
    by (simp add: open_room_state_def plain_state_def plain_room_def)
  have n: "currently_active_users open_room_state ''r1'' = 1"
    by (simp add: currently_active_users_def open_room_state_def plain_state_def)
  have a: "r_is_active (plain_room ''r1'' (Some True)) = Some True"
    by (simp add: plain_room_def)
  show ?thesis
    using room_is_currently_active[OF f, unfolded p n a]
    by (simp add: open_room_state_def plain_state_def)
qed

lemma closed_room_count: "currently_active_users closed_room_state ''r1'' = 1"
  by (simp add: currently_active_users_def closed_room_state_def plain_state_def)

text \<open>
  The claim as stated fails at a room whose \<^verbatim>\<open>is_active\<close> column is false while one of its
  sessions is currently active: the count is 1 and the flag is \<^verbatim>\<open>false\<close>.
\<close>

theorem room_is_currently_active_counterexample:
  "response_status (fst (get_room (plain_request [(''roomId'', ''r1'')] []) closed_room_state)) = 200
   \<and> currently_active_users closed_room_state ''r1'' = 1
   \<and> statistics_field (fst (get_room (plain_request [(''roomId'', ''r1'')] []) closed_room_state))
        ''is_currently_active'' = JBool False"
proof -
  obtain stats where
    run: "room_stats_run (path_param (plain_request [(''roomId'', ''r1'')] []) ''roomId'')
            closed_room_state = Inr [stats]"
    using room_stats_row by blast
  have resp: "fst (get_room (plain_request [(''roomId'', ''r1'')] []) closed_room_state) =
      Response 200 (JObj (room_body (room_row (plain_room ''r1'' (Some False))) stats))"
    by (rule get_room_found[where rs = "[]", OF _ _ _ run])
       (simp_all add: closed_room_state_def plain_state_def plain_room_def)
  obtain stats' where
    st: "js_get (room_body (room_row (plain_room ''r1'' (Some False))) stats) ''statistics'' = JObj stats'"
    and a: "js_get stats' ''is_currently_active'' =
         js_and (js_get (room_row (plain_room ''r1'' (Some False))) ''is_active'')
           (JBool (js_gt (parseInt (js_get stats ''currently_active_users'')) (JNum 0)))"
    using room_body_statistics[of "room_row (plain_room ''r1'' (Some False))" stats] by blast
  have "js_get stats' ''is_currently_active'' = JBool False"
    by (simp add: a room_row_is_active js_and_def js_bool_def plain_room_def)
  then show ?thesis
    by (simp add: resp st statistics_field_def response_status_def closed_room_count)
qed

section \<open>Profile view recording never fails the request\<close>

text \<open>
  C8. \<^verbatim>\<open>recordProfileView\<close> always returns; the one statement it dispatches is the insert,
  with the viewer address cut to 50 characters and the user agent to 255; the row is stored
  unless the storage rejects the insert or the row conflicts with a stored one, and a
  conflict leaves the table and the console as they were; a rejected insert writes one line
  to the console. The response of \<^verbatim>\<open>POST /users/:userId/view\<close> and of
  \<^verbatim>\<open>GET /users/:userId\<close> does not depend on whether the storage rejects the insert (the
  second statement of the first, the fourth of the second).
\<close>

theorem recordProfileView_contract:
  "fst (recordProfileView userId req st) = Inr ()
   \<and> (let ip = take 50 (text_or (req_ip req) (text_or (req_remoteAddress req) ''unknown''));
           agent = take 255 (text_or (req_user_agent req) ''Unknown'');
           row = \<lparr>pv_viewed_user_id = userId, pv_viewer_ip = ip, pv_viewer_user_agent = agent,
                   pv_viewed_at = db_now st\<rparr>;
           st' = snd (recordProfileView userId req st)
       in length ip \<le> 50 \<and> length agent \<le> 255
          \<and> db_log st' = db_log st @ [(insert_profile_view_sql, [JStr userId, JStr ip, JStr agent])]
          \<and> db_profile_views st' =
              (if db_fault st (length (db_log st)) = None \<and> \<not> db_conflict st row (db_profile_views st)
               then db_profile_views st @ [row] else db_profile_views st)
          \<and> console st' =
              (case db_fault st (length (db_log st)) of
                 None \<Rightarrow> console st
               | Some msg \<Rightarrow> console st @ [''Failed to record profile view: '' @ msg]))
   \<and> fst (post_user_view req (st\<lparr>db_fault := (db_fault st)(Suc (length (db_log st)) := f)\<rparr>))
       = fst (post_user_view req st)
   \<and> fst (get_user_profile req (st\<lparr>db_fault := (db_fault st)(length (db_log st) + 3 := f)\<rparr>))
       = fst (get_user_profile req st)"
proof -
  have a: "fst (recordProfileView userId req st) = Inr ()"
    by (simp add: recordProfileView_def recordProfileView_try_def pool_insert_profile_view_def
        Let_def split: option.splits)
  have b: "(let ip = take 50 (text_or (req_ip req) (text_or (req_remoteAddress req) ''unknown''));
           agent = take 255 (text_or (req_user_agent req) ''Unknown'');
           row = \<lparr>pv_viewed_user_id = userId, pv_viewer_ip = ip, pv_viewer_user_agent = agent,
                   pv_viewed_at = db_now st\<rparr>;
           st' = snd (recordProfileView userId req st)
       in length ip \<le> 50 \<and> length agent \<le> 255
          \<and> db_log st' = db_log st @ [(insert_profile_view_sql, [JStr userId, JStr ip, JStr agent])]
          \<and> db_profile_views st' =
              (if db_fault st (length (db_log st)) = None \<and> \<not> db_conflict st row (db_profile_views st)
               then db_profile_views st @ [row] else db_profile_views st)
          \<and> console st' =
              (case db_fault st (length (db_log st)) of
                 None \<Rightarrow> console st
               | Some msg \<Rightarrow> console st @ [''Failed to record profile view: '' @ msg]))"
    by (simp add: recordProfileView_def recordProfileView_try_def pool_insert_profile_view_def
        Let_def split: option.splits)
  have c: "fst (post_user_view req (st\<lparr>db_fault := (db_fault st)(Suc (length (db_log st)) := f)\<rparr>))
       = fst (post_user_view req st)"
    by (simp add: post_user_view_def pool_query_def user_check_run_def recordProfileView_def
        recordProfileView_try_def pool_insert_profile_view_def Let_def
        split: option.splits list.splits)
  have d: "fst (get_user_profile req (st\<lparr>db_fault := (db_fault st)(length (db_log st) + 3 := f)\<rparr>))
       = fst (get_user_profile req st)"
    by (simp add: get_user_profile_def pool_query_def user_run_def user_stats_run_def fav_lang_run_def
        recordProfileView_def recordProfileView_try_def pool_insert_profile_view_def Let_def
        split: option.splits list.splits)
  from a b c d show ?thesis by blast
qed

section \<open>Short search queries\<close>

lemma dispatch_rooms_search:
  "dispatch GET ''/rooms/search'' = Some (RoomDetails, [(''roomId'', ''search'')])"
  by (simp add: dispatch_def routes_def match_route_def segments_def lower_def lower_char_def)

lemma dispatch_users_search: "dispatch GET ''/users/search'' = Some (UsersSearch, [])"
  by (simp add: dispatch_def routes_def match_route_def segments_def lower_def lower_char_def)

text \<open>
  Both handlers have the guard: with \<^verbatim>\<open>q\<close> missing, empty or of length 1 they answer
  \<^verbatim>\<open>[]\<close> with status 200 and dispatch nothing. A request for \<^verbatim>\<open>/users/search\<close> reaches
  its handler.
\<close>

lemma get_users_search_short:
  assumes "\<not> truthy (js_get (req_query req) ''q'')
           \<or> js_lt (js_length (js_get (req_query req) ''q'')) (JNum 2)"
  shows "get_users_search req st = (Response 200 (JArr []), st)"
  using assms by (auto simp: get_users_search_def Let_def)

lemma get_rooms_search_short:
  assumes "\<not> truthy (js_get (req_query req) ''q'')
           \<or> js_lt (js_length (js_get (req_query req) ''q'')) (JNum 2)"
  shows "get_rooms_search req st = (Response 200 (JArr []), st)"
  using assms by (auto simp: get_rooms_search_def Let_def)

lemma serve_users_search_short:
  assumes "\<not> truthy (js_get (req_query req) ''q'')
           \<or> js_lt (js_length (js_get (req_query req) ''q'')) (JNum 2)"
  shows "serve GET ''/users/search'' req st = Some (Response 200 (JArr []), st)"
  using assms by (simp add: serve_def dispatch_users_search handler_def get_users_search_short)

text \<open>
  C9. The claim: a search request with \<^verbatim>\<open>q\<close> of length 0 or 1 is answered with \<^verbatim>\<open>[]\<close>
  and no storage access, for users and for rooms. The code: \<^verbatim>\<open>GET /rooms/search?q=a\<close> never
  reaches the guarded handler; it is served by the room point-lookup registered before it,
  which dispatches the room query with \<^verbatim>\<open>roomId = 'search'\<close> and, on a storage without
  such a room, answers 404.
\<close>

theorem short_room_search_is_a_room_lookup:
  "serve GET ''/rooms/search'' (plain_request [] [(''q'', JStr ''a'')]) (plain_state [] [] [] 0) =
     Some (Response 404 (JObj [(''error'', JStr ''Room not found'')]),
           (plain_state [] [] [] 0)\<lparr>db_log := [(room_sql, [JStr ''search''])]\<rparr>)"
  by (simp add: serve_def dispatch_rooms_search handler_def get_room_def pool_query_def
      room_run_def path_param_def plain_request_def plain_state_def)

section \<open>The profile is computed for the resolved user\<close>

text \<open>
  C10. When the lookup \<^verbatim>\<open>WHERE user_id = $1 OR LOWER(username) = LOWER($1)\<close> finds rows and
  \<open>u\<close> is the first of them, the handler dispatches, after the lookup with the raw path
  parameter, the statistics query and the favourite-language query with \<open>u\<close>'s
  \<^verbatim>\<open>user_id\<close> as their parameter and, when \<^verbatim>\<open>record_view\<close> is \<^verbatim>\<open>'true'\<close>, the insert of
  the profile view with \<open>u\<close>'s \<^verbatim>\<open>user_id\<close> as the viewed user; the response is built from
  \<open>u\<close>'s row and the results of these queries for \<open>u\<close>'s \<^verbatim>\<open>user_id\<close>. (The storage
  answers every statement.)
\<close>

theorem profile_keyed_on_resolved_user:
  assumes "filter (\<lambda>u. u_user_id u = path_param req ''userId''
                       \<or> lower (u_username u) = lower (path_param req ''userId''))
             (db_users st) = u # us"
    and "\<forall>k. db_fault st k = None"
  shows "db_log (snd (get_user_profile req st)) =
           db_log st
           @ [(user_sql, [JStr (path_param req ''userId'')]),
              (user_stats_sql, [JStr (u_user_id u)]),
              (fav_lang_sql, [JStr (u_user_id u)])]
           @ (if query_default req ''record_view'' (JStr ''false'') = JStr ''true''
              then [(insert_profile_view_sql,
                      [JStr (u_user_id u),
                       JStr (take 50 (text_or (req_ip req) (text_or (req_remoteAddress req) ''unknown''))),
                       JStr (take 255 (text_or (req_user_agent req) ''Unknown''))])]
              else [])
         \<and> (\<exists>stats favRows.
               user_stats_run (u_user_id u) st = Inr [stats]
               \<and> fav_lang_run (u_user_id u) st = Inr favRows
               \<and> fst (get_user_profile req st) =
                   Response 200 (JObj (profile_body (user_row u) stats (favorite_of favRows))))"
proof -
  have rows: "filter (user_where (path_param req ''userId'')) (db_users st) = u # us"
    using assms(1) by (simp add: user_where_def[abs_def])
  obtain stats where stats: "user_stats_run (u_user_id u) st = Inr [stats]"
    using user_stats_one_row by blast
  obtain favRows where fav: "fav_lang_run (u_user_id u) st = Inr favRows"
    using fav_lang_rows by blast
  note found = get_user_profile_found[OF rows assms(2) stats fav]
  from found(2) found(1) stats fav show ?thesis by blast
qed

text \<open>
  A request for \<^verbatim>\<open>/users/alice?record_view=true\<close>, on a storage whose one user has the
  identity \<^verbatim>\<open>u1\<close> and the name \<^verbatim>\<open>Alice\<close>: the three later statements carry \<^verbatim>\<open>u1\<close>.
\<close>

theorem profile_keyed_on_resolved_user_witness:
  "db_log (snd (get_user_profile
             (plain_request [(''userId'', ''alice'')] [(''record_view'', JStr ''true'')])
             lone_user_state)) =
     [(user_sql, [JStr ''alice'']),
      (user_stats_sql, [JStr ''u1'']),
      (fav_lang_sql, [JStr ''u1'']),
      (insert_profile_view_sql, [JStr ''u1'', JStr ''unknown'', JStr ''Unknown''])]"
proof -
  let ?req = "plain_request [(''userId'', ''alice'')] [(''record_view'', JStr ''true'')]"
  have rows: "filter (\<lambda>u. u_user_id u = path_param ?req ''userId''
                       \<or> lower (u_username u) = lower (path_param ?req ''userId''))
             (db_users lone_user_state) = plain_user ''u1'' ''Alice'' None None # []"
    using lone_user_lookup[of "[(''record_view'', JStr ''true'')]"]
    by (simp add: user_where_def[abs_def])
  show ?thesis
    using profile_keyed_on_resolved_user[OF rows lone_user_no_fault]
    by (simp add: query_default_def js_get_def plain_request_def text_or_def plain_user_def
        lone_user_state_def plain_state_def path_param_def)
qed

end
